theory Spec2Isabelle
  imports Main "HOL-Library.Sublist" "HOL-Library.Word"
begin

section \<open>JavaScript values\<close>

text \<open>
  A JavaScript string is modelled as a \<open>string\<close> whose characters are the code points
  0 to 255 (Latin-1); only the plaintext of the secrets codec, whose encoding matters, has
  a type of its own (a parameter of the codec). A thrown error is a value of \<open>js_error\<close>
  carrying the name of its class (\<open>error.name\<close>) and its message; \<open>new Error(m)\<close> is
  \<open>Error m\<close>, and the server code constructs no error of another class. A function that
  can throw returns \<open>js_error + 'a\<close>, with \<open>Inl\<close> for the throw. A value that may be
  \<open>null\<close> or \<open>undefined\<close> is an \<open>option\<close>.
\<close>

datatype js_error = JsError (error_name: string) (message: string)

abbreviation Error :: "string \<Rightarrow> js_error" where
  "Error m \<equiv> JsError ''Error'' m"

text \<open>The error of the engine for a property read on \<open>null\<close> or \<open>undefined\<close>.\<close>

abbreviation TypeError :: "string \<Rightarrow> js_error" where
  "TypeError m \<equiv> JsError ''TypeError'' m"

text \<open>Truthiness of a possibly missing string: \<open>if (s)\<close> holds for a non-empty string only.\<close>

fun truthy :: "string option \<Rightarrow> bool" where
  "truthy None = False"
| "truthy (Some s) = (s \<noteq> [])"

text \<open>\<open>s || undefined\<close>: a missing or empty string becomes \<open>undefined\<close>.\<close>

fun or_undefined :: "string option \<Rightarrow> string option" where
  "or_undefined None = None"
| "or_undefined (Some s) = (if s = [] then None else Some s)"

text \<open>\<open>String.prototype.toLowerCase\<close> on the code points below 256.\<close>

definition toLowerCase_char :: "char \<Rightarrow> char" where
  "toLowerCase_char c =
     (let n = (of_char c :: nat)
      in if (65 \<le> n \<and> n \<le> 90) \<or> (192 \<le> n \<and> n \<le> 214) \<or> (216 \<le> n \<and> n \<le> 222)
         then char_of (n + 32) else c)"

definition toLowerCase :: "string \<Rightarrow> string" where
  "toLowerCase s = map toLowerCase_char s"

text \<open>The regular expression class \<open>\s\<close> on the code points below 256.\<close>

definition is_whitespace :: "char \<Rightarrow> bool" where
  "is_whitespace c = ((of_char c :: nat) \<in> {9, 10, 11, 12, 13, 32, 160})"

text \<open>\<open>s.replace(/\s+/g, r)\<close>: every maximal run of whitespace becomes one copy of \<open>r\<close>.\<close>

function replace_whitespace_runs :: "string \<Rightarrow> string \<Rightarrow> string" where
  "replace_whitespace_runs r [] = []"
| "replace_whitespace_runs r (c # cs) =
     (if is_whitespace c then r @ replace_whitespace_runs r (dropWhile is_whitespace cs)
      else c # replace_whitespace_runs r cs)"
  by pat_completeness auto
termination
  by (relation "measure (\<lambda>(r, s). length s)") (auto simp: length_dropWhile_le less_Suc_eq_le)

text \<open>A non-negative integer in a template literal: its decimal digits.\<close>

function string_of_nat :: "nat \<Rightarrow> string" where
  "string_of_nat n =
     (if n < 10 then [char_of (48 + n)] else string_of_nat (n div 10) @ [char_of (48 + n mod 10)])"
  by pat_completeness auto
termination
  by (relation "measure id") auto

declare string_of_nat.simps [simp del]

section \<open>Secrets codec (server/crypto.ts, in src/unnamed/part_007)\<close>

text \<open>
  Node's \<open>crypto\<close> and \<open>Buffer\<close> are not part of the repository: they are a parameter
  of the model. \<open>cipher_gcm alg key iv data\<close> stands for \<open>createCipheriv\<close>, \<open>update\<close>,
  \<open>final\<close> and \<open>getAuthTag\<close> and returns the ciphertext and the tag;
  \<open>decipher_gcm alg key iv tag data\<close> stands for \<open>createDecipheriv\<close>, \<open>setAuthTag\<close>,
  \<open>update\<close> and \<open>final\<close>. \<open>None\<close> is a throw of the library. The type \<open>'s\<close> is the type
  of the JavaScript strings that are encrypted: \<open>utf8_encode\<close> is the input encoding
  \<open>'utf8'\<close> of \<open>cipher.update\<close> and \<open>utf8_decode\<close> the output encoding \<open>'utf8'\<close> of
  \<open>decipher.update\<close> and \<open>decipher.final\<close>.
\<close>

type_synonym buffer = "8 word list"

record 's crypto_lib =
  pbkdf2Sync :: "buffer \<Rightarrow> buffer \<Rightarrow> nat \<Rightarrow> nat \<Rightarrow> string \<Rightarrow> buffer"
  cipher_gcm :: "string \<Rightarrow> buffer \<Rightarrow> buffer \<Rightarrow> buffer \<Rightarrow> (buffer \<times> buffer) option"
  decipher_gcm :: "string \<Rightarrow> buffer \<Rightarrow> buffer \<Rightarrow> buffer \<Rightarrow> buffer \<Rightarrow> buffer option"
  utf8_encode :: "'s \<Rightarrow> buffer"
  utf8_decode :: "buffer \<Rightarrow> 's"
  hex_encode :: "buffer \<Rightarrow> string"
  hex_decode :: "string \<Rightarrow> buffer"
  base64_encode :: "buffer \<Rightarrow> string"
  base64_decode :: "string \<Rightarrow> buffer"

definition ALGORITHM :: string where "ALGORITHM = ''aes-256-gcm''"
definition IV_LENGTH :: nat where "IV_LENGTH = 16"
definition SALT_LENGTH :: nat where "SALT_LENGTH = 64"
definition TAG_LENGTH :: nat where "TAG_LENGTH = 16"
definition KEY_LENGTH :: nat where "KEY_LENGTH = 32"
definition ITERATIONS :: nat where "ITERATIONS = 100000"

text \<open>\<open>process.env.ENCRYPTION_KEY\<close> is the argument; an unset or empty variable throws.\<close>

definition getEncryptionKey :: "string option \<Rightarrow> js_error + string" where
  "getEncryptionKey env_key =
     (if \<not> truthy env_key
      then Inl (Error (''ENCRYPTION_KEY environment variable is required for encrypting sensitive data. ''
             @ ''Generate one with: node -e '' @ [CHR 0x22] @ ''console.log(require('' @ [CHR 0x27]
             @ ''crypto'' @ [CHR 0x27] @ '').randomBytes(32).toString('' @ [CHR 0x27] @ ''hex''
             @ [CHR 0x27] @ ''))'' @ [CHR 0x22]))
      else Inr (case env_key of Some k \<Rightarrow> k | None \<Rightarrow> []))"

definition deriveKey :: "'s crypto_lib \<Rightarrow> buffer \<Rightarrow> string \<Rightarrow> buffer" where
  "deriveKey lib salt masterKey =
     pbkdf2Sync lib (hex_decode lib masterKey) salt ITERATIONS KEY_LENGTH ''sha512''"

text \<open>\<open>Buffer.slice(start, end)\<close> and \<open>Buffer.slice(start)\<close> for non-negative indices.\<close>

definition slice_buffer :: "buffer \<Rightarrow> nat \<Rightarrow> nat \<Rightarrow> buffer" where
  "slice_buffer b start end = take (end - start) (drop start b)"

definition slice_from :: "buffer \<Rightarrow> nat \<Rightarrow> buffer" where
  "slice_from b start = drop start b"

text \<open>
  \<open>salt\<close> and \<open>iv\<close> are the results of \<open>crypto.randomBytes(SALT_LENGTH)\<close> and
  \<open>crypto.randomBytes(IV_LENGTH)\<close>. Every throw inside the \<open>try\<close> is replaced by the
  fixed error of the \<open>catch\<close>.
\<close>

definition encryptPassword ::
  "'s crypto_lib \<Rightarrow> string option \<Rightarrow> buffer \<Rightarrow> buffer \<Rightarrow> 's \<Rightarrow> js_error + string" where
  "encryptPassword lib env_key salt iv plaintext =
     (case getEncryptionKey env_key of
        Inl e \<Rightarrow> Inl (Error ''Failed to encrypt password'')
      | Inr masterKey \<Rightarrow>
          (let key = deriveKey lib salt masterKey
           in case cipher_gcm lib ALGORITHM key iv (utf8_encode lib plaintext) of
                None \<Rightarrow> Inl (Error ''Failed to encrypt password'')
              | Some (data, tag) \<Rightarrow>
                  (let encrypted = hex_encode lib data;
                       result = concat [salt, iv, tag, hex_decode lib encrypted]
                   in Inr (base64_encode lib result))))"

definition decryptPassword :: "'s crypto_lib \<Rightarrow> string option \<Rightarrow> string \<Rightarrow> js_error + 's" where
  "decryptPassword lib env_key encrypted =
     (case getEncryptionKey env_key of
        Inl e \<Rightarrow> Inl (Error ''Failed to decrypt password'')
      | Inr masterKey \<Rightarrow>
          (let buffer = base64_decode lib encrypted;
               salt = slice_buffer buffer 0 SALT_LENGTH;
               iv = slice_buffer buffer SALT_LENGTH (SALT_LENGTH + IV_LENGTH);
               tag = slice_buffer buffer (SALT_LENGTH + IV_LENGTH) (SALT_LENGTH + IV_LENGTH + TAG_LENGTH);
               encryptedData = slice_from buffer (SALT_LENGTH + IV_LENGTH + TAG_LENGTH);
               key = deriveKey lib salt masterKey
           in case decipher_gcm lib ALGORITHM key iv tag
                     (hex_decode lib (hex_encode lib encryptedData)) of
                None \<Rightarrow> Inl (Error ''Failed to decrypt password'')
              | Some decrypted \<Rightarrow> Inr (utf8_decode lib decrypted)))"

section \<open>Client configuration (config/client-config.schema.ts, at the end of src/FEATURES_SUMMARY.md)\<close>

record LendProConfig =
  lp_apiUrl :: string
  lp_username :: string
  lp_password :: string
  lp_storeId :: string
  lp_salesId :: string
  lp_salesName :: string

record BrandingConfig =
  br_logoUrl :: "string option"
  br_primaryColor :: "string option"
  br_secondaryColor :: "string option"
  br_companyName :: "string option"

record VisualizerConfig =
  vz_enabled :: bool
  vz_embedCode :: "string option"
  vz_autoSyncApiKey :: "string option"

record FeatureFlags =
  ff_preApproval :: bool
  ff_cartFinancing :: bool
  ff_orderTracking :: bool
  ff_customerAccounts :: bool
  ff_productComparison :: bool
  ff_cartOnly :: bool

record ClientConfig =
  cfg_id :: string
  cfg_name :: string
  cfg_domain :: string
  cfg_lendpro :: LendProConfig
  cfg_branding :: "BrandingConfig option"
  cfg_visualizer :: "VisualizerConfig option"
  cfg_features :: "FeatureFlags option"

section \<open>Environment variables (scripts/deploy-client.ts, in src/unnamed/part_008)\<close>

type_synonym EnvironmentVariable = "string \<times> string"

text \<open>\<open>if (v) vars.push({ key, value: v })\<close>\<close>

fun push_if :: "string \<Rightarrow> string option \<Rightarrow> EnvironmentVariable list" where
  "push_if k None = []"
| "push_if k (Some v) = (if v \<noteq> [] then [(k, v)] else [])"

definition buildEnvironmentVariables :: "ClientConfig \<Rightarrow> string \<Rightarrow> EnvironmentVariable list" where
  "buildEnvironmentVariables config mysqlServiceId =
     [ (''NODE_ENV'', ''production''),
       (''PORT'', ''3000''),
       (''LENDPRO_API_URL'', lp_apiUrl (cfg_lendpro config)),
       (''LENDPRO_USERNAME'', lp_username (cfg_lendpro config)),
       (''LENDPRO_PASSWORD'', lp_password (cfg_lendpro config)),
       (''LENDPRO_STORE_ID'', lp_storeId (cfg_lendpro config)),
       (''LENDPRO_SALES_ID'', lp_salesId (cfg_lendpro config)),
       (''LENDPRO_SALES_NAME'', lp_salesName (cfg_lendpro config)),
       (''DATABASE_URL'', ''${{'' @ mysqlServiceId @ ''.MYSQL_URL}}''),
       (''OAUTH_SERVER_URL'', ''http://localhost:3000'') ]
     @ (case cfg_visualizer config of
          None \<Rightarrow> []
        | Some v \<Rightarrow>
            [(''VISUALIZER_ENABLED'', if vz_enabled v then ''true'' else ''false'')]
            @ push_if ''VISUALIZER_EMBED_CODE'' (vz_embedCode v)
            @ push_if ''AUTOSYNC_API_KEY'' (vz_autoSyncApiKey v))
     @ (if (case cfg_features config of None \<Rightarrow> False | Some f \<Rightarrow> ff_cartOnly f)
        then [(''CART_ONLY_MODE'', ''true'')] else [])
     @ (case cfg_branding config of
          None \<Rightarrow> []
        | Some b \<Rightarrow>
            push_if ''VITE_PRIMARY_COLOR'' (br_primaryColor b)
            @ push_if ''VITE_SECONDARY_COLOR'' (br_secondaryColor b)
            @ push_if ''VITE_COMPANY_NAME'' (br_companyName b)
            @ push_if ''VITE_LOGO_URL'' (br_logoUrl b))"

section \<open>Ledger rows (database/schema.ts, in src/unnamed/part_000)\<close>

text \<open>
  The tables of the admin database, one record per row type. Timestamps are milliseconds
  as natural numbers. The surrogate keys and the \<open>createdAt\<close>/\<open>updatedAt\<close> columns, which
  no operation below reads, are left out.
\<close>

datatype client_status = ClientActive | ClientInactive | ClientDeploying | ClientFailed

datatype deployment_status = Pending | Building | Deploying | Success | Failed | Cancelled

datatype deployment_type = Initial | Update | Redeploy | Rollback

record Client =
  cl_id :: string
  cl_name :: string
  cl_domain :: "string option"
  cl_railwayProjectId :: "string option"
  cl_railwayProjectUrl :: "string option"
  cl_railwayEnvironmentId :: "string option"
  cl_railwayServiceId :: "string option"
  cl_serviceUrl :: "string option"
  cl_status :: client_status
  cl_lastDeployedAt :: "nat option"

record ClientLendproConfig =
  lr_clientId :: string
  lr_config :: LendProConfig

record ClientBranding =
  bb_clientId :: string
  bb_config :: BrandingConfig

record ClientFeatures =
  fr_clientId :: string
  fr_flags :: FeatureFlags

record ClientVisualizer =
  vr_clientId :: string
  vr_config :: VisualizerConfig

record Deployment =
  dep_id :: string
  dep_clientId :: string
  dep_status :: deployment_status
  dep_deploymentType :: deployment_type
  dep_railwayDeploymentId :: "string option"
  dep_logs :: "string option"
  dep_errorMessage :: "string option"
  dep_startedAt :: nat
  dep_completedAt :: "nat option"
  dep_deployedBy :: "string option"

record ClientAnalytics =
  an_clientId :: string
  an_date :: nat

record DeploymentResult =
  dr_success :: bool
  dr_clientId :: string
  dr_projectId :: "string option"
  dr_projectUrl :: "string option"
  dr_serviceUrl :: "string option"
  dr_error :: "string option"

text \<open>The \<open>details\<close> column holds the value the source passes to \<open>JSON.stringify\<close>.\<close>

datatype audit_details = ResultDetails DeploymentResult | NameDetails string

record AuditLog =
  al_action :: string
  al_resourceType :: string
  al_resourceId :: string
  al_details :: audit_details

section \<open>The world: database, clock, observable events\<close>

datatype event =
    CreateProject string
  | CreateMySQLService string string
  | CreateService string string string string
  | SetEnvironmentVariables string string "EnvironmentVariable list"
  | TriggerDeployment string string
  | GetDeploymentStatus string
  | GetServiceDomain string
  | AddCustomDomain string string
  | DeleteProject string
  | Sleep nat
  | LedgerWrite Deployment

datatype log_entry = ConsoleError string js_error | ConsoleWarn string js_error

text \<open>
  \<open>trace\<close> records, in order, every call made on the Railway client, every \<open>sleep\<close>
  and every value a row of the \<open>deployments\<close> table is given. \<open>console\<close> records the
  \<open>console.error\<close> and \<open>console.warn\<close> calls of the orchestrator (\<open>deploy-client.ts\<close>) and
  of the router (\<open>trpc.ts\<close>), in order. It does not hold the progress lines of
  \<open>console.log\<close>, nor the line that \<open>RailwayApiClient.query\<close> writes to \<open>console.error\<close>
  before it throws an error of the platform on (that line belongs to the platform client,
  which is a parameter here), nor the lines \<open>[Crypto] Encryption failed:\<close> and
  \<open>[Crypto] Decryption failed:\<close> of the secrets codec (their argument is the error of the
  library, which the model does not name). \<open>clock\<close> is \<open>Date.now()\<close>.
\<close>

record world =
  tbl_clients :: "Client list"
  tbl_lendpro :: "ClientLendproConfig list"
  tbl_branding :: "ClientBranding list"
  tbl_features :: "ClientFeatures list"
  tbl_visualizer :: "ClientVisualizer list"
  tbl_deployments :: "Deployment list"
  tbl_analytics :: "ClientAnalytics list"
  tbl_audit :: "AuditLog list"
  clock :: nat
  trace :: "event list"
  console :: "log_entry list"

definition emit :: "event \<Rightarrow> world \<Rightarrow> world" where
  "emit e w = w\<lparr>trace := trace w @ [e]\<rparr>"

definition console_error :: "string \<Rightarrow> js_error \<Rightarrow> world \<Rightarrow> world" where
  "console_error label e w = w\<lparr>console := console w @ [ConsoleError label e]\<rparr>"

definition console_warn :: "string \<Rightarrow> js_error \<Rightarrow> world \<Rightarrow> world" where
  "console_warn label e w = w\<lparr>console := console w @ [ConsoleWarn label e]\<rparr>"

section \<open>Remote platform client (src/scripts/railway-api.ts)\<close>

record CreateProjectResponse =
  prj_projectId :: string
  prj_projectName :: string

record CreateServiceResponse =
  svc_serviceId :: string
  svc_serviceName :: string

record DeploymentResponse =
  dpl_deploymentId :: string
  dpl_status :: string

record StatusResponse =
  st_status :: string
  st_url :: "string option"

text \<open>
  What the remote platform answers is not decided by the repository: each method of
  \<open>RailwayApiClient\<close> is a field giving the outcome of the call on its arguments, a thrown
  error or the response. The status of a deployment depends on the time of the request.
  \<open>r_latency t\<close> is the duration of a status request issued at time \<open>t\<close>, and
  \<open>r_timer_lag t\<close> is how late a timer set at time \<open>t\<close> fires.
\<close>

record Railway =
  r_createProject :: "string \<Rightarrow> js_error + CreateProjectResponse"
  r_createMySQLService :: "string \<Rightarrow> string \<Rightarrow> js_error + CreateServiceResponse"
  r_createService :: "string \<Rightarrow> string \<Rightarrow> string \<Rightarrow> string \<Rightarrow> js_error + CreateServiceResponse"
  r_setEnvironmentVariables :: "string \<Rightarrow> string \<Rightarrow> EnvironmentVariable list \<Rightarrow> js_error + unit"
  r_triggerDeployment :: "string \<Rightarrow> string \<Rightarrow> js_error + DeploymentResponse"
  r_getDeploymentStatus :: "nat \<Rightarrow> string \<Rightarrow> js_error + StatusResponse"
  r_getServiceDomain :: "string \<Rightarrow> js_error + string option"
  r_addCustomDomain :: "string \<Rightarrow> string \<Rightarrow> js_error + unit"
  r_deleteProject :: "string \<Rightarrow> js_error + unit"
  r_latency :: "nat \<Rightarrow> nat"
  r_timer_lag :: "nat \<Rightarrow> nat"

text \<open>\<open>createRailwayApiClient\<close>: the argument is \<open>process.env.RAILWAY_API_TOKEN\<close>.\<close>

definition createRailwayApiClient :: "Railway \<Rightarrow> string option \<Rightarrow> js_error + Railway" where
  "createRailwayApiClient platform apiToken =
     (if \<not> truthy apiToken
      then Inl (Error (''RAILWAY_API_TOKEN environment variable is required. ''
             @ ''Get your token from https://railway.app/account/tokens''))
      else Inr platform)"

section \<open>Deployment orchestrator (scripts/deploy-client.ts, in src/unnamed/part_008)\<close>

record ClientDeployer =
  railwayClient :: Railway
  githubRepo :: string
  githubBranch :: string

definition new_ClientDeployer :: "Railway \<Rightarrow> string option \<Rightarrow> string option \<Rightarrow> ClientDeployer" where
  "new_ClientDeployer rc repo branch =
     \<lparr> railwayClient = rc,
       githubRepo = (if truthy repo then (case repo of Some r \<Rightarrow> r | None \<Rightarrow> [])
                     else ''AudienceActivatorAI/lendpro-ecommerce''),
       githubBranch = (if truthy branch then (case branch of Some b \<Rightarrow> b | None \<Rightarrow> [])
                       else ''main'') \<rparr>"

text \<open>\<open>sleep(ms)\<close>: the timer fires after \<open>ms\<close> milliseconds or later.\<close>

definition sleep :: "Railway \<Rightarrow> nat \<Rightarrow> world \<Rightarrow> world" where
  "sleep rc ms w = (emit (Sleep ms) w)\<lparr>clock := clock w + ms + r_timer_lag rc (clock w)\<rparr>"

definition pollInterval :: nat where "pollInterval = 5000"

text \<open>
  The \<open>while\<close> loop of \<open>waitForDeployment\<close>; \<open>startTime\<close> is the clock at its entry. The
  clock never runs backwards, so \<open>Date.now() - startTime\<close> is a natural number.
\<close>

function waitForDeployment_loop ::
  "Railway \<Rightarrow> string \<Rightarrow> nat \<Rightarrow> nat \<Rightarrow> world \<Rightarrow> (js_error + StatusResponse) \<times> world" where
  "waitForDeployment_loop rc deploymentId timeout startTime w =
     (if clock w - startTime < timeout then
        (let w1 = (emit (GetDeploymentStatus deploymentId) w)
                    \<lparr>clock := clock w + r_latency rc (clock w)\<rparr>
         in case r_getDeploymentStatus rc (clock w) deploymentId of
              Inl e \<Rightarrow> (Inl e, w1)
            | Inr status \<Rightarrow>
                if st_status status = ''SUCCESS'' \<or> st_status status = ''ACTIVE''
                then (Inr status, w1)
                else if st_status status = ''FAILED'' \<or> st_status status = ''CRASHED''
                then (Inl (Error (''Deployment failed with status: '' @ st_status status)), w1)
                else waitForDeployment_loop rc deploymentId timeout startTime
                       (sleep rc pollInterval w1))
      else (Inl (Error (''Deployment timed out after '' @ string_of_nat timeout @ ''ms'')), w))"
  by pat_completeness auto
termination
  by (relation "measure (\<lambda>(rc, d, timeout, startTime, w). startTime + timeout - clock w)")
     (auto simp: sleep_def emit_def pollInterval_def)

declare waitForDeployment_loop.simps [simp del]

definition waitForDeployment ::
  "Railway \<Rightarrow> string \<Rightarrow> nat \<Rightarrow> world \<Rightarrow> (js_error + StatusResponse) \<times> world" where
  "waitForDeployment rc deploymentId timeout w =
     waitForDeployment_loop rc deploymentId timeout (clock w) w"

text \<open>
  The body of the \<open>try\<close> block of \<open>deployClient\<close>: every call is recorded before its
  outcome is looked at, and the first thrown error ends the sequence.
\<close>

definition deployClient_try ::
  "ClientDeployer \<Rightarrow> ClientConfig \<Rightarrow> world \<Rightarrow> (js_error + DeploymentResult) \<times> world" where
  "deployClient_try d config w0 =
     (let rc = railwayClient d;
          projectName = ''lendpro-'' @ replace_whitespace_runs ''-'' (toLowerCase (cfg_name config));
          w1 = emit (CreateProject projectName) w0
      in case r_createProject rc projectName of
           Inl e \<Rightarrow> (Inl e, w1)
         | Inr project \<Rightarrow>
     (let w2 = emit (CreateMySQLService (prj_projectId project) ''mysql'') w1
      in case r_createMySQLService rc (prj_projectId project) ''mysql'' of
           Inl e \<Rightarrow> (Inl e, w2)
         | Inr mysqlService \<Rightarrow>
     (let w3 = sleep rc 5000 w2;
          w4 = emit (CreateService (prj_projectId project) ''web'' (githubRepo d) (githubBranch d)) w3
      in case r_createService rc (prj_projectId project) ''web'' (githubRepo d) (githubBranch d) of
           Inl e \<Rightarrow> (Inl e, w4)
         | Inr webService \<Rightarrow>
     (let envVars = buildEnvironmentVariables config (svc_serviceId mysqlService);
          w5 = emit (SetEnvironmentVariables (prj_projectId project) (svc_serviceId webService) envVars) w4
      in case r_setEnvironmentVariables rc (prj_projectId project) (svc_serviceId webService) envVars of
           Inl e \<Rightarrow> (Inl e, w5)
         | Inr u \<Rightarrow>
     (let w6 = emit (TriggerDeployment (prj_projectId project) (svc_serviceId webService)) w5
      in case r_triggerDeployment rc (prj_projectId project) (svc_serviceId webService) of
           Inl e \<Rightarrow> (Inl e, w6)
         | Inr deployment \<Rightarrow>
     (case waitForDeployment rc (dpl_deploymentId deployment) 300000 w6 of
           (Inl e, w7) \<Rightarrow> (Inl e, w7)
         | (Inr deploymentStatus, w7) \<Rightarrow>
     (let w8 = emit (GetServiceDomain (svc_serviceId webService)) w7
      in case r_getServiceDomain rc (svc_serviceId webService) of
           Inl e \<Rightarrow> (Inl e, w8)
         | Inr serviceUrl \<Rightarrow>
     (let w9 = (if cfg_domain config \<noteq> [] then
                  (let w = emit (AddCustomDomain (svc_serviceId webService) (cfg_domain config)) w8
                   in case r_addCustomDomain rc (svc_serviceId webService) (cfg_domain config) of
                        Inl e \<Rightarrow> console_warn ''[Deployer] Failed to add custom domain:'' e w
                      | Inr u \<Rightarrow> w)
                else w8)
      in (Inr \<lparr> dr_success = True,
                dr_clientId = cfg_id config,
                dr_projectId = Some (prj_projectId project),
                dr_projectUrl = Some (''https://railway.app/project/'' @ prj_projectId project),
                dr_serviceUrl = or_undefined serviceUrl,
                dr_error = None \<rparr>, w9)))))))))"

text \<open>\<open>deployClient\<close>: the \<open>catch\<close> turns every thrown error into a failure result.\<close>

definition deployClient ::
  "ClientDeployer \<Rightarrow> ClientConfig \<Rightarrow> world \<Rightarrow> DeploymentResult \<times> world" where
  "deployClient d config w =
     (case deployClient_try d config w of
        (Inr result, w') \<Rightarrow> (result, w')
      | (Inl error, w') \<Rightarrow>
          (\<lparr> dr_success = False,
             dr_clientId = cfg_id config,
             dr_projectId = None,
             dr_projectUrl = None,
             dr_serviceUrl = None,
             dr_error = Some (message error) \<rparr>,
           console_error ''[Deployer] Deployment failed:'' error w'))"

text \<open>\<open>ClientDeployer.deleteClient\<close> has no \<open>catch\<close>: the error of \<open>deleteProject\<close> is thrown on.\<close>

definition deleteClient :: "ClientDeployer \<Rightarrow> string \<Rightarrow> world \<Rightarrow> (js_error + unit) \<times> world" where
  "deleteClient d projectId w =
     (let w1 = emit (DeleteProject projectId) w
      in case r_deleteProject (railwayClient d) projectId of
           Inl e \<Rightarrow> (Inl e, w1)
         | Inr u \<Rightarrow> (Inr (), w1))"

section \<open>Data access layer (src/database/db.ts)\<close>

text \<open>
  The operations on the database are total functions on the tables: a statement reaches
  the database and is carried out. The one failure that is modelled is the insert of a
  primary key that is present.
\<close>

record ClientWithConfig =
  gc_client :: Client
  gc_lendpro :: "ClientLendproConfig option"
  gc_branding :: "ClientBranding option"
  gc_features :: "ClientFeatures option"
  gc_visualizer :: "ClientVisualizer option"

definition getClient :: "string \<Rightarrow> world \<Rightarrow> ClientWithConfig option" where
  "getClient clientId w =
     (case find (\<lambda>c. cl_id c = clientId) (tbl_clients w) of
        None \<Rightarrow> None
      | Some client \<Rightarrow>
          Some \<lparr> gc_client = client,
                 gc_lendpro = find (\<lambda>r. lr_clientId r = clientId) (tbl_lendpro w),
                 gc_branding = find (\<lambda>r. bb_clientId r = clientId) (tbl_branding w),
                 gc_features = find (\<lambda>r. fr_clientId r = clientId) (tbl_features w),
                 gc_visualizer = find (\<lambda>r. vr_clientId r = clientId) (tbl_visualizer w) \<rparr>)"

text \<open>\<open>db.update(clients).set(updates).where(eq(clients.id, clientId))\<close>\<close>

definition updateClient :: "string \<Rightarrow> (Client \<Rightarrow> Client) \<Rightarrow> world \<Rightarrow> world" where
  "updateClient clientId updates w =
     w\<lparr>tbl_clients := map (\<lambda>c. if cl_id c = clientId then updates c else c) (tbl_clients w)\<rparr>"

text \<open>
  Cascade delete: every table whose \<open>clientId\<close> column references \<open>clients.id\<close> with
  \<open>onDelete: "cascade"\<close> loses the rows of the client.
\<close>

definition dbDeleteClient :: "string \<Rightarrow> world \<Rightarrow> world" where
  "dbDeleteClient clientId w =
     w\<lparr> tbl_clients := filter (\<lambda>c. cl_id c \<noteq> clientId) (tbl_clients w),
        tbl_lendpro := filter (\<lambda>r. lr_clientId r \<noteq> clientId) (tbl_lendpro w),
        tbl_branding := filter (\<lambda>r. bb_clientId r \<noteq> clientId) (tbl_branding w),
        tbl_features := filter (\<lambda>r. fr_clientId r \<noteq> clientId) (tbl_features w),
        tbl_visualizer := filter (\<lambda>r. vr_clientId r \<noteq> clientId) (tbl_visualizer w),
        tbl_deployments := filter (\<lambda>r. dep_clientId r \<noteq> clientId) (tbl_deployments w),
        tbl_analytics := filter (\<lambda>r. an_clientId r \<noteq> clientId) (tbl_analytics w) \<rparr>"

text \<open>
  \<open>createDeployment\<close>: the columns not given take their defaults. The primary key is
  unique: inserting an id that is present is an error of the database.
\<close>

definition createDeployment ::
  "string \<Rightarrow> string \<Rightarrow> deployment_status \<Rightarrow> deployment_type \<Rightarrow> world \<Rightarrow> js_error + world" where
  "createDeployment deploymentId clientId status deploymentType w =
     (if deploymentId \<in> dep_id ` set (tbl_deployments w)
      then Inl (Error ''Duplicate entry'')
      else (let row = \<lparr> dep_id = deploymentId,
                         dep_clientId = clientId,
                         dep_status = status,
                         dep_deploymentType = deploymentType,
                         dep_railwayDeploymentId = None,
                         dep_logs = None,
                         dep_errorMessage = None,
                         dep_startedAt = clock w,
                         dep_completedAt = None,
                         dep_deployedBy = None \<rparr>
            in Inr ((emit (LedgerWrite row) w)\<lparr>tbl_deployments := tbl_deployments w @ [row]\<rparr>)))"

text \<open>\<open>db.update(deployments).set(updates).where(eq(deployments.id, deploymentId))\<close>\<close>

definition updateDeployment :: "string \<Rightarrow> (Deployment \<Rightarrow> Deployment) \<Rightarrow> world \<Rightarrow> world" where
  "updateDeployment deploymentId updates w =
     (let rows = map (\<lambda>r. if dep_id r = deploymentId then updates r else r) (tbl_deployments w)
      in w\<lparr> tbl_deployments := rows,
            trace := trace w @ map (\<lambda>r. LedgerWrite (updates r))
                                   (filter (\<lambda>r. dep_id r = deploymentId) (tbl_deployments w)) \<rparr>)"

definition logAdminAction :: "AuditLog \<Rightarrow> world \<Rightarrow> world" where
  "logAdminAction entry w = w\<lparr>tbl_audit := tbl_audit w @ [entry]\<rparr>"

section \<open>API layer (the router \<open>appRouter\<close>, second part of src/server/trpc.ts)\<close>

text \<open>
  What the process is started with: the remote platform, Node's library and the two
  environment variables read at each call.
\<close>

record server_env =
  env_platform :: Railway
  env_crypto :: "string crypto_lib"
  ENCRYPTION_KEY :: "string option"
  RAILWAY_API_TOKEN :: "string option"

text \<open>\<open>x || fallback\<close> on strings.\<close>

fun or_else :: "string option \<Rightarrow> string \<Rightarrow> string" where
  "or_else None d = d"
| "or_else (Some s) d = (if s = [] then d else s)"

text \<open>A column set to \<open>v || undefined\<close>: an undefined value leaves the column as it is.\<close>

fun set_if_defined :: "string option \<Rightarrow> string option \<Rightarrow> string option" where
  "set_if_defined None old = old"
| "set_if_defined (Some v) old = Some v"

text \<open>
  The object literal \<open>clientConfig\<close> of \<open>clients.deploy\<close>, with the decrypted password;
  it has no \<open>visualizer\<close> field.
\<close>

definition clientConfig_of :: "ClientWithConfig \<Rightarrow> ClientLendproConfig \<Rightarrow> string \<Rightarrow> ClientConfig" where
  "clientConfig_of client lendpro password =
     \<lparr> cfg_id = cl_id (gc_client client),
       cfg_name = cl_name (gc_client client),
       cfg_domain = or_else (cl_domain (gc_client client)) [],
       cfg_lendpro = (lr_config lendpro)\<lparr>lp_password := password\<rparr>,
       cfg_branding = map_option bb_config (gc_branding client),
       cfg_visualizer = None,
       cfg_features = map_option fr_flags (gc_features client) \<rparr>"

text \<open>
  The \<open>try\<close> block of \<open>clients.deploy\<close>. Reading \<open>client.lendpro.password\<close> of a client
  without a credentials row is a \<open>TypeError\<close>.
\<close>

definition clients_deploy_try ::
  "server_env \<Rightarrow> string \<Rightarrow> string \<Rightarrow> ClientWithConfig \<Rightarrow> world
     \<Rightarrow> (js_error + DeploymentResult) \<times> world" where
  "clients_deploy_try env deploymentId clientId client w0 =
     (let w1 = updateClient clientId (\<lambda>c. c\<lparr>cl_status := ClientDeploying\<rparr>) w0;
          w2 = updateDeployment deploymentId (\<lambda>r. r\<lparr>dep_status := Building\<rparr>) w1
      in case createRailwayApiClient (env_platform env) (RAILWAY_API_TOKEN env) of
           Inl e \<Rightarrow> (Inl e, w2)
         | Inr client_rc \<Rightarrow>
     (let deployer = new_ClientDeployer client_rc None None
      in case gc_lendpro client of
           None \<Rightarrow> (Inl (TypeError (''Cannot read properties of undefined (reading '' @ [CHR 0x27]
                                 @ ''password'' @ [CHR 0x27] @ '')'')), w2)
         | Some lendpro \<Rightarrow>
     (case decryptPassword (env_crypto env) (ENCRYPTION_KEY env) (lp_password (lr_config lendpro)) of
           Inl e \<Rightarrow> (Inl e, w2)
         | Inr password \<Rightarrow>
     (let clientConfig = clientConfig_of client lendpro password
      in case deployClient deployer clientConfig w2 of
           (result, w3) \<Rightarrow>
             if dr_success result then
               (let w4 = updateClient clientId
                           (\<lambda>c. c\<lparr> cl_status := ClientActive,
                                   cl_railwayProjectId :=
                                     set_if_defined (or_undefined (dr_projectId result)) (cl_railwayProjectId c),
                                   cl_railwayProjectUrl :=
                                     set_if_defined (or_undefined (dr_projectUrl result)) (cl_railwayProjectUrl c),
                                   cl_serviceUrl :=
                                     set_if_defined (or_undefined (dr_serviceUrl result)) (cl_serviceUrl c),
                                   cl_lastDeployedAt := Some (clock w3) \<rparr>) w3;
                    w5 = updateDeployment deploymentId
                           (\<lambda>r. r\<lparr>dep_status := Success, dep_completedAt := Some (clock w4)\<rparr>) w4;
                    w6 = logAdminAction
                           \<lparr> al_action = ''deploy_client'',
                             al_resourceType = ''deployment'',
                             al_resourceId = deploymentId,
                             al_details = ResultDetails result \<rparr> w5
                in (Inr result, w6))
             else
               (let w4 = updateClient clientId (\<lambda>c. c\<lparr>cl_status := ClientFailed\<rparr>) w3;
                    w5 = updateDeployment deploymentId
                           (\<lambda>r. r\<lparr> dep_status := Failed,
                                   dep_errorMessage := set_if_defined (dr_error result) (dep_errorMessage r),
                                   dep_completedAt := Some (clock w4) \<rparr>) w4
                in (Inl (Error (or_else (dr_error result) ''Deployment failed'')), w5))))))"

text \<open>
  \<open>clients.deploy\<close>; \<open>deploymentId\<close> is the result of \<open>nanoid()\<close>. The \<open>catch\<close> records
  the failure and throws the error on.
\<close>

definition clients_deploy ::
  "server_env \<Rightarrow> string \<Rightarrow> string \<Rightarrow> world \<Rightarrow> (js_error + DeploymentResult) \<times> world" where
  "clients_deploy env deploymentId clientId w =
     (case getClient clientId w of
        None \<Rightarrow> (Inl (Error (''Client not found: '' @ clientId)), w)
      | Some client \<Rightarrow>
          (case createDeployment deploymentId clientId Pending
                  (if truthy (cl_railwayProjectId (gc_client client)) then Redeploy else Initial) w of
             Inl e \<Rightarrow> (Inl e, w)
           | Inr w0 \<Rightarrow>
               (case clients_deploy_try env deploymentId clientId client w0 of
                  (Inr result, w') \<Rightarrow> (Inr result, w')
                | (Inl error, w') \<Rightarrow>
                    (let w1 = updateClient clientId (\<lambda>c. c\<lparr>cl_status := ClientFailed\<rparr>) w';
                         w2 = updateDeployment deploymentId
                                (\<lambda>r. r\<lparr> dep_status := Failed,
                                        dep_errorMessage := Some (message error),
                                        dep_completedAt := Some (clock w1) \<rparr>) w1
                     in (Inl error, w2)))))"

text \<open>\<open>clients.delete\<close>; the result \<open>True\<close> is \<open>{ success: true }\<close>.\<close>

definition clients_delete :: "server_env \<Rightarrow> string \<Rightarrow> world \<Rightarrow> (js_error + bool) \<times> world" where
  "clients_delete env clientId w =
     (case getClient clientId w of
        None \<Rightarrow> (Inl (Error ''Client not found''), w)
      | Some client \<Rightarrow>
          (let w1 = (case cl_railwayProjectId (gc_client client) of
                       None \<Rightarrow> w
                     | Some projectId \<Rightarrow>
                         if projectId = [] then w
                         else (case createRailwayApiClient (env_platform env) (RAILWAY_API_TOKEN env) of
                                 Inl e \<Rightarrow> console_error ''Failed to delete Railway project:'' e w
                               | Inr client_rc \<Rightarrow>
                                   (case deleteClient (new_ClientDeployer client_rc None None) projectId w of
                                      (Inl e, w') \<Rightarrow> console_error ''Failed to delete Railway project:'' e w'
                                    | (Inr u, w') \<Rightarrow> w')));
               w2 = dbDeleteClient clientId w1;
               w3 = logAdminAction
                      \<lparr> al_action = ''delete_client'',
                        al_resourceType = ''client'',
                        al_resourceId = clientId,
                        al_details = NameDetails (cl_name (gc_client client)) \<rparr> w2
           in (Inr True, w3)))"

section \<open>Observations on a run\<close>

text \<open>The number of status requests in a trace, and the durations of its sleeps, in order.\<close>

fun is_poll :: "event \<Rightarrow> bool" where
  "is_poll (GetDeploymentStatus d) = True"
| "is_poll e = False"

definition polls :: "event list \<Rightarrow> nat" where
  "polls evs = length (filter is_poll evs)"

fun sleep_of :: "event \<Rightarrow> nat list" where
  "sleep_of (Sleep ms) = [ms]"
| "sleep_of e = []"

definition sleeps :: "event list \<Rightarrow> nat list" where
  "sleeps evs = concat (map sleep_of evs)"

text \<open>The events a run from \<open>w\<close> to \<open>w'\<close> has added.\<close>

definition new_events :: "world \<Rightarrow> world \<Rightarrow> event list" where
  "new_events w w' = drop (length (trace w)) (trace w')"

text \<open>The statuses the polling loop goes on waiting at: every string but the four it tests for.\<close>

definition in_progress :: "string \<Rightarrow> bool" where
  "in_progress s = (s \<notin> {''SUCCESS'', ''ACTIVE'', ''FAILED'', ''CRASHED''})"

text \<open>The values the ledger row \<open>deploymentId\<close> has been given, in order.\<close>

fun ledger_write_of :: "string \<Rightarrow> event \<Rightarrow> Deployment list" where
  "ledger_write_of deploymentId (LedgerWrite r) = (if dep_id r = deploymentId then [r] else [])"
| "ledger_write_of deploymentId e = []"

definition row_history :: "string \<Rightarrow> event list \<Rightarrow> Deployment list" where
  "row_history deploymentId evs = concat (map (ledger_write_of deploymentId) evs)"

definition non_terminal :: "deployment_status \<Rightarrow> bool" where
  "non_terminal s = (s \<in> {Pending, Building, Deploying})"

text \<open>
  The project name as the specification words it: the display name lowercased, with
  each space replaced by a hyphen.
\<close>

definition spec_project_name :: "string \<Rightarrow> string" where
  "spec_project_name name = map (\<lambda>c. if c = CHR '' '' then CHR ''-'' else c) (toLowerCase name)"

text \<open>A name whose only whitespace is single spaces between other characters.\<close>

fun single_spaced :: "string \<Rightarrow> bool" where
  "single_spaced [] = True"
| "single_spaced [c] = (is_whitespace c \<longrightarrow> c = CHR '' '')"
| "single_spaced (c # d # cs) =
     ((is_whitespace c \<longrightarrow> c = CHR '' '' \<and> \<not> is_whitespace d) \<and> single_spaced (d # cs))"

text \<open>The values a list of environment variables holds for a key, in order.\<close>

definition lookup_all :: "string \<Rightarrow> EnvironmentVariable list \<Rightarrow> string list" where
  "lookup_all k vars = map snd (filter (\<lambda>kv. fst kv = k) vars)"

text \<open>The names of the projects a trace asks the platform to create, in order.\<close>

fun project_of :: "event \<Rightarrow> string list" where
  "project_of (CreateProject name) = [name]"
| "project_of e = []"

definition created_projects :: "event list \<Rightarrow> string list" where
  "created_projects evs = concat (map project_of evs)"

text \<open>
  \<open>frame P w w'\<close>: from \<open>w\<close> to \<open>w'\<close> no table has changed, the clock has not run
  backwards, and the trace has grown by events that satisfy \<open>P\<close>.
\<close>

definition frame :: "(event \<Rightarrow> bool) \<Rightarrow> world \<Rightarrow> world \<Rightarrow> bool" where
  "frame P w w' =
     (tbl_clients w' = tbl_clients w \<and> tbl_lendpro w' = tbl_lendpro w
      \<and> tbl_branding w' = tbl_branding w \<and> tbl_features w' = tbl_features w
      \<and> tbl_visualizer w' = tbl_visualizer w \<and> tbl_deployments w' = tbl_deployments w
      \<and> tbl_analytics w' = tbl_analytics w \<and> tbl_audit w' = tbl_audit w
      \<and> clock w \<le> clock w'
      \<and> prefix (trace w) (trace w') \<and> list_all P (new_events w w'))"

text \<open>The events of the orchestrator after its first: no project creation, no ledger write.\<close>

definition after_create :: "event \<Rightarrow> bool" where
  "after_create e = (project_of e = [] \<and> (case e of LedgerWrite r \<Rightarrow> False | _ \<Rightarrow> True))"

text \<open>The rows of the ledger with a given id, and the rows of a client in the client table.\<close>

definition rows_of :: "string \<Rightarrow> world \<Rightarrow> Deployment list" where
  "rows_of deploymentId w = filter (\<lambda>r. dep_id r = deploymentId) (tbl_deployments w)"

definition clients_of :: "string \<Rightarrow> world \<Rightarrow> Client list" where
  "clients_of clientId w = filter (\<lambda>c. cl_id c = clientId) (tbl_clients w)"

text \<open>
  The row \<open>clients.deploy\<close> inserts, and the world in which it then calls \<open>deployClient\<close>:
  after the insert and the two status updates that open the \<open>try\<close> block.
\<close>

definition pending_row :: "string \<Rightarrow> string \<Rightarrow> ClientWithConfig \<Rightarrow> world \<Rightarrow> Deployment" where
  "pending_row deploymentId clientId client w =
     \<lparr> dep_id = deploymentId,
       dep_clientId = clientId,
       dep_status = Pending,
       dep_deploymentType =
         (if truthy (cl_railwayProjectId (gc_client client)) then Redeploy else Initial),
       dep_railwayDeploymentId = None,
       dep_logs = None,
       dep_errorMessage = None,
       dep_startedAt = clock w,
       dep_completedAt = None,
       dep_deployedBy = None \<rparr>"

definition attempt_world :: "string \<Rightarrow> string \<Rightarrow> ClientWithConfig \<Rightarrow> world \<Rightarrow> world" where
  "attempt_world deploymentId clientId client w =
     updateDeployment deploymentId (\<lambda>r. r\<lparr>dep_status := Building\<rparr>)
       (updateClient clientId (\<lambda>c. c\<lparr>cl_status := ClientDeploying\<rparr>)
          ((emit (LedgerWrite (pending_row deploymentId clientId client w)) w)
             \<lparr>tbl_deployments := tbl_deployments w
                @ [pending_row deploymentId clientId client w]\<rparr>))"

section \<open>String encodings of Node's Buffer\<close>

text \<open>
  The encodings \<open>'utf8'\<close> and \<open>'hex'\<close> of Node's \<open>Buffer\<close>, which the secrets codec names
  in its calls, on JavaScript strings as they are: sequences of UTF-16 code units. They
  are not code of the repository; they are written out for the scenarios in which the
  encoding decides the outcome. Encoding as \<open>'utf8'\<close> joins a surrogate pair into one
  code point and writes U+FFFD for a surrogate that has no partner; decoding follows the
  UTF-8 decoder of the Encoding Standard (U+FFFD for every maximal ill-formed part).
\<close>

type_synonym utf16 = "16 word list"

definition is_high_surrogate :: "nat \<Rightarrow> bool" where
  "is_high_surrogate u = (0xD800 \<le> u \<and> u \<le> 0xDBFF)"

definition is_low_surrogate :: "nat \<Rightarrow> bool" where
  "is_low_surrogate u = (0xDC00 \<le> u \<and> u \<le> 0xDFFF)"

definition scalar_of_unit :: "nat \<Rightarrow> nat" where
  "scalar_of_unit u = (if is_high_surrogate u \<or> is_low_surrogate u then 0xFFFD else u)"

fun code_points :: "nat list \<Rightarrow> nat list" where
  "code_points [] = []"
| "code_points [u] = [scalar_of_unit u]"
| "code_points (u # v # us) =
     (if is_high_surrogate u \<and> is_low_surrogate v
      then (0x10000 + (u - 0xD800) * 1024 + (v - 0xDC00)) # code_points us
      else scalar_of_unit u # code_points (v # us))"

definition utf8_of_code_point :: "nat \<Rightarrow> buffer" where
  "utf8_of_code_point c =
     (if c < 0x80 then [of_nat c]
      else if c < 0x800 then [of_nat (0xC0 + c div 64), of_nat (0x80 + c mod 64)]
      else if c < 0x10000
      then [of_nat (0xE0 + c div 4096), of_nat (0x80 + c div 64 mod 64), of_nat (0x80 + c mod 64)]
      else [of_nat (0xF0 + c div 262144), of_nat (0x80 + c div 4096 mod 64),
            of_nat (0x80 + c div 64 mod 64), of_nat (0x80 + c mod 64)])"

definition utf8_encode_utf16 :: "utf16 \<Rightarrow> buffer" where
  "utf8_encode_utf16 s = concat (map utf8_of_code_point (code_points (map unat s)))"

text \<open>
  The state of the decoder: the code point under construction, the number of bytes it
  still needs, and the bounds of the next byte.
\<close>

type_synonym utf8_state = "nat \<times> nat \<times> nat \<times> nat"

definition utf8_initial :: utf8_state where
  "utf8_initial = (0, 0, 0x80, 0xBF)"

definition utf8_lead :: "nat \<Rightarrow> nat list \<times> utf8_state" where
  "utf8_lead b =
     (if b < 0x80 then ([b], utf8_initial)
      else if 0xC2 \<le> b \<and> b \<le> 0xDF then ([], (b - 0xC0, 1, 0x80, 0xBF))
      else if 0xE0 \<le> b \<and> b \<le> 0xEF
      then ([], (b - 0xE0, 2, if b = 0xE0 then 0xA0 else 0x80, if b = 0xED then 0x9F else 0xBF))
      else if 0xF0 \<le> b \<and> b \<le> 0xF4
      then ([], (b - 0xF0, 3, if b = 0xF0 then 0x90 else 0x80, if b = 0xF4 then 0x8F else 0xBF))
      else ([0xFFFD], utf8_initial))"

fun utf8_step :: "utf8_state \<Rightarrow> nat \<Rightarrow> nat list \<times> utf8_state" where
  "utf8_step (cp, needed, lower, upper) b =
     (if needed = 0 then utf8_lead b
      else if b < lower \<or> upper < b then (0xFFFD # fst (utf8_lead b), snd (utf8_lead b))
      else if needed = 1 then ([cp * 64 + (b - 0x80)], utf8_initial)
      else ([], (cp * 64 + (b - 0x80), needed - 1, 0x80, 0xBF)))"

fun utf8_run :: "utf8_state \<Rightarrow> nat list \<Rightarrow> nat list" where
  "utf8_run (cp, needed, lower, upper) [] = (if needed = 0 then [] else [0xFFFD])"
| "utf8_run st (b # bs) = fst (utf8_step st b) @ utf8_run (snd (utf8_step st b)) bs"

definition utf16_of_code_point :: "nat \<Rightarrow> utf16" where
  "utf16_of_code_point c =
     (if c < 0x10000 then [of_nat c]
      else [of_nat (0xD800 + (c - 0x10000) div 1024), of_nat (0xDC00 + (c - 0x10000) mod 1024)])"

definition utf8_decode_utf16 :: "buffer \<Rightarrow> utf16" where
  "utf8_decode_utf16 b = concat (map utf16_of_code_point (utf8_run utf8_initial (map unat b)))"

text \<open>The code points UTF-8 has a form for, and the strings in which every surrogate has its partner.\<close>

definition is_scalar :: "nat \<Rightarrow> bool" where
  "is_scalar c = (c < 0x110000 \<and> \<not> (0xD800 \<le> c \<and> c \<le> 0xDFFF))"

fun well_formed_utf16 :: "nat list \<Rightarrow> bool" where
  "well_formed_utf16 [] = True"
| "well_formed_utf16 [u] = (\<not> is_high_surrogate u \<and> \<not> is_low_surrogate u)"
| "well_formed_utf16 (u # v # us) =
     (if is_high_surrogate u then is_low_surrogate v \<and> well_formed_utf16 us
      else \<not> is_low_surrogate u \<and> well_formed_utf16 (v # us))"

text \<open>
  \<open>buf.toString('hex')\<close> writes two lowercase digits for a byte; \<open>Buffer.from(s, 'hex')\<close>
  reads pairs of digits of either case and stops at the first pair that is not one.
\<close>

definition hex_digit :: "nat \<Rightarrow> char" where
  "hex_digit n = (if n < 10 then char_of (48 + n) else char_of (87 + n))"

definition hex_value :: "char \<Rightarrow> nat option" where
  "hex_value c =
     (let n = (of_char c :: nat)
      in if 48 \<le> n \<and> n \<le> 57 then Some (n - 48)
         else if 97 \<le> n \<and> n \<le> 102 then Some (n - 87)
         else if 65 \<le> n \<and> n \<le> 70 then Some (n - 55)
         else None)"

definition hex_encode_node :: "buffer \<Rightarrow> string" where
  "hex_encode_node b = concat (map (\<lambda>x. [hex_digit (unat x div 16), hex_digit (unat x mod 16)]) b)"

fun hex_decode_node :: "string \<Rightarrow> buffer" where
  "hex_decode_node (c # d # cs) =
     (case (hex_value c, hex_value d) of
        (Some h, Some l) \<Rightarrow> of_nat (16 * h + l) # hex_decode_node cs
      | _ \<Rightarrow> [])"
| "hex_decode_node cs = []"

section \<open>Scenarios\<close>

text \<open>Scenario A of the specification, with the default API URL of the schema.\<close>

definition scenarioA :: ClientConfig where
  "scenarioA =
     \<lparr> cfg_id = ''acme'',
       cfg_name = ''Acme'',
       cfg_domain = ''acme.test'',
       cfg_lendpro = \<lparr> lp_apiUrl = ''https://apisg.mylendpro.com'',
                       lp_username = ''u'',
                       lp_password = ''p'',
                       lp_storeId = ''S1'',
                       lp_salesId = ''X1'',
                       lp_salesName = ''Jane'' \<rparr>,
       cfg_branding = None,
       cfg_visualizer = None,
       cfg_features = None \<rparr>"

definition world0 :: world where
  "world0 =
     \<lparr> tbl_clients = [], tbl_lendpro = [], tbl_branding = [], tbl_features = [],
       tbl_visualizer = [], tbl_deployments = [], tbl_analytics = [], tbl_audit = [],
       clock = 0, trace = [], console = [] \<rparr>"

text \<open>A platform on which every call succeeds and the build has finished at the first poll.\<close>

definition railway_ok :: Railway where
  "railway_ok =
     \<lparr> r_createProject = (\<lambda>name. Inr \<lparr>prj_projectId = ''proj-1'', prj_projectName = name\<rparr>),
       r_createMySQLService = (\<lambda>p name. Inr \<lparr>svc_serviceId = ''svc-db'', svc_serviceName = name\<rparr>),
       r_createService = (\<lambda>p name repo branch. Inr \<lparr>svc_serviceId = ''svc-web'', svc_serviceName = name\<rparr>),
       r_setEnvironmentVariables = (\<lambda>p s vars. Inr ()),
       r_triggerDeployment = (\<lambda>p s. Inr \<lparr>dpl_deploymentId = ''dpl-1'', dpl_status = ''BUILDING''\<rparr>),
       r_getDeploymentStatus = (\<lambda>t d. Inr \<lparr>st_status = ''SUCCESS'', st_url = None\<rparr>),
       r_getServiceDomain = (\<lambda>s. Inr (Some ''acme.up.railway.app'')),
       r_addCustomDomain = (\<lambda>s d. Inr ()),
       r_deleteProject = (\<lambda>p. Inr ()),
       r_latency = (\<lambda>t. 0),
       r_timer_lag = (\<lambda>t. 0) \<rparr>"

text \<open>A platform that rejects every mutation and never gets a build out of \<open>building\<close>.\<close>

definition railway_down :: Railway where
  "railway_down =
     \<lparr> r_createProject = (\<lambda>name. Inl (Error ''Railway API Error'')),
       r_createMySQLService = (\<lambda>p name. Inl (Error ''Railway API Error'')),
       r_createService = (\<lambda>p name repo branch. Inl (Error ''Railway API Error'')),
       r_setEnvironmentVariables = (\<lambda>p s vars. Inl (Error ''Railway API Error'')),
       r_triggerDeployment = (\<lambda>p s. Inl (Error ''Railway API Error'')),
       r_getDeploymentStatus = (\<lambda>t d. Inr \<lparr>st_status = ''building'', st_url = None\<rparr>),
       r_getServiceDomain = (\<lambda>s. Inl (Error ''Railway API Error'')),
       r_addCustomDomain = (\<lambda>s d. Inl (Error ''Railway API Error'')),
       r_deleteProject = (\<lambda>p. Inl (Error ''Railway API Error'')),
       r_latency = (\<lambda>t. 0),
       r_timer_lag = (\<lambda>t. 0) \<rparr>"


text \<open>
  A stand-in for Node's library in the scenarios. It keeps the layout of the real one
  (derived keys of the length asked for, 16-byte tags, decoders that invert the
  encoders) and encrypts nothing.
\<close>

definition test_crypto :: "string crypto_lib" where
  "test_crypto =
     \<lparr> pbkdf2Sync = (\<lambda>password salt iterations keylen digest. replicate keylen 0),
       cipher_gcm = (\<lambda>alg key iv data. Some (data, replicate 16 0)),
       decipher_gcm = (\<lambda>alg key iv tag data. if tag = replicate 16 0 then Some data else None),
       utf8_encode = map of_char,
       utf8_decode = map (\<lambda>b. char_of (unat b)),
       hex_encode = map (\<lambda>b. char_of (unat b)),
       hex_decode = map of_char,
       base64_encode = map (\<lambda>b. char_of (unat b)),
       base64_decode = map of_char \<rparr>"

definition test_key :: string where
  "test_key = ''000102030405060708090a0b0c0d0e0f101112131415161718191a1b1c1d1e1f''"

text \<open>The token \<open>clients.create\<close> has stored for the password \<open>p\<close>.\<close>

definition stored_password :: string where
  "stored_password =
     (case encryptPassword test_crypto (Some test_key) (replicate 64 0) (replicate 16 0) ''p'' of
        Inl e \<Rightarrow> [] | Inr token \<Rightarrow> token)"

text \<open>A client that has been created and never deployed, and its credentials row.\<close>

definition acme_client :: Client where
  "acme_client =
     \<lparr> cl_id = ''acme'', cl_name = ''Acme'', cl_domain = Some ''acme.test'',
       cl_railwayProjectId = None, cl_railwayProjectUrl = None,
       cl_railwayEnvironmentId = None, cl_railwayServiceId = None, cl_serviceUrl = None,
       cl_status = ClientInactive, cl_lastDeployedAt = None \<rparr>"

definition acme_lendpro :: ClientLendproConfig where
  "acme_lendpro =
     \<lparr> lr_clientId = ''acme'',
       lr_config = \<lparr> lp_apiUrl = ''https://apisg.mylendpro.com'',
                     lp_username = ''u'',
                     lp_password = stored_password,
                     lp_storeId = ''S1'',
                     lp_salesId = ''X1'',
                     lp_salesName = ''Jane'' \<rparr> \<rparr>"

definition world_acme :: world where
  "world_acme = world0\<lparr>tbl_clients := [acme_client], tbl_lendpro := [acme_lendpro]\<rparr>"

text \<open>
  The database while an earlier call of \<open>clients.deploy\<close> for the client waits for the
  platform: its ledger row \<open>d1\<close> is \<open>building\<close>, the client is \<open>deploying\<close>.
\<close>

definition inflight_row :: Deployment where
  "inflight_row =
     \<lparr> dep_id = ''d1'', dep_clientId = ''acme'', dep_status = Building,
       dep_deploymentType = Initial, dep_railwayDeploymentId = None, dep_logs = None,
       dep_errorMessage = None, dep_startedAt = 0, dep_completedAt = None,
       dep_deployedBy = None \<rparr>"


text \<open>The client after a deployment, with rows in the tables that reference it.\<close>

definition world_deployed :: world where
  "world_deployed =
     world0\<lparr> tbl_clients := [acme_client\<lparr> cl_railwayProjectId := Some ''proj-1'',
                                         cl_status := ClientActive \<rparr>],
             tbl_lendpro := [acme_lendpro],
             tbl_features := [\<lparr> fr_clientId = ''acme'',
                                fr_flags = \<lparr> ff_preApproval = True, ff_cartFinancing = True,
                                             ff_orderTracking = True, ff_customerAccounts = True,
                                             ff_productComparison = True, ff_cartOnly = False \<rparr> \<rparr>],
             tbl_deployments := [inflight_row\<lparr>dep_status := Success, dep_completedAt := Some 0\<rparr>],
             tbl_analytics := [\<lparr>an_clientId = ''acme'', an_date = 0\<rparr>] \<rparr>"

definition server_ok :: server_env where
  "server_ok =
     \<lparr> env_platform = railway_ok, env_crypto = test_crypto,
       ENCRYPTION_KEY = Some test_key, RAILWAY_API_TOKEN = Some ''token'' \<rparr>"

definition server_down :: server_env where
  "server_down = server_ok\<lparr>env_platform := railway_down\<rparr>"

text \<open>Scenario A with two spaces in the display name.\<close>

definition scenario_two_spaces :: ClientConfig where
  "scenario_two_spaces = scenarioA\<lparr>cfg_name := ''Acme  Corp''\<rparr>"

text \<open>
  A second stand-in, for the properties that depend on the encodings: strings are UTF-16,
  \<open>'utf8'\<close> and \<open>'hex'\<close> are the encodings above, the derived key depends on the password
  and on the salt, and the tag depends on the key, so that a token is accepted under the
  key that made it and under no key that differs in its first sixteen bytes.
\<close>

definition node_crypto :: "utf16 crypto_lib" where
  "node_crypto =
     \<lparr> pbkdf2Sync = (\<lambda>password salt iterations keylen digest.
                       take keylen (password @ salt @ replicate keylen 0)),
       cipher_gcm = (\<lambda>alg key iv data. Some (data, take 16 (key @ replicate 16 0))),
       decipher_gcm = (\<lambda>alg key iv tag data.
                         if tag = take 16 (key @ replicate 16 0) then Some data else None),
       utf8_encode = utf8_encode_utf16,
       utf8_decode = utf8_decode_utf16,
       hex_encode = hex_encode_node,
       hex_decode = hex_decode_node,
       base64_encode = map (\<lambda>b. char_of (unat b)),
       base64_decode = map of_char \<rparr>"


section \<open>Verified properties\<close>

subsection \<open>Environment variable construction\<close>

lemma push_if_falsy: "\<not> truthy v \<Longrightarrow> push_if k v = []"
  by (cases v) auto

lemma buildEnvironmentVariables_plain:
  assumes "cfg_visualizer config = None"
    and "case cfg_features config of None \<Rightarrow> True | Some f \<Rightarrow> \<not> ff_cartOnly f"
    and "case cfg_branding config of None \<Rightarrow> True
         | Some b \<Rightarrow> \<not> truthy (br_primaryColor b) \<and> \<not> truthy (br_secondaryColor b)
                     \<and> \<not> truthy (br_companyName b) \<and> \<not> truthy (br_logoUrl b)"
  shows "buildEnvironmentVariables config m =
     [ (''NODE_ENV'', ''production''),
       (''PORT'', ''3000''),
       (''LENDPRO_API_URL'', lp_apiUrl (cfg_lendpro config)),
       (''LENDPRO_USERNAME'', lp_username (cfg_lendpro config)),
       (''LENDPRO_PASSWORD'', lp_password (cfg_lendpro config)),
       (''LENDPRO_STORE_ID'', lp_storeId (cfg_lendpro config)),
       (''LENDPRO_SALES_ID'', lp_salesId (cfg_lendpro config)),
       (''LENDPRO_SALES_NAME'', lp_salesName (cfg_lendpro config)),
       (''DATABASE_URL'', ''${{'' @ m @ ''.MYSQL_URL}}''),
       (''OAUTH_SERVER_URL'', ''http://localhost:3000'') ]"
proof -
  have f: "(if (case cfg_features config of None \<Rightarrow> False | Some f \<Rightarrow> ff_cartOnly f)
        then [(''CART_ONLY_MODE'', ''true'')] else []) = []"
    using assms(2) by (cases "cfg_features config") auto
  have b: "(case cfg_branding config of
          None \<Rightarrow> []
        | Some b \<Rightarrow>
            push_if ''VITE_PRIMARY_COLOR'' (br_primaryColor b)
            @ push_if ''VITE_SECONDARY_COLOR'' (br_secondaryColor b)
            @ push_if ''VITE_COMPANY_NAME'' (br_companyName b)
            @ push_if ''VITE_LOGO_URL'' (br_logoUrl b)) = []"
    using assms(3) by (cases "cfg_branding config") (auto simp: push_if_falsy)
  show ?thesis
    unfolding buildEnvironmentVariables_def f b by (simp add: assms(1))
qed

text \<open>
  Claim C7. For a client configuration with LendPro credentials and no visualizer, no
  cart-only flag and no non-empty branding field, the list that
  \<open>buildEnvironmentVariables\<close> returns holds exactly one entry for \<open>NODE_ENV\<close>, with the
  value \<open>production\<close>, exactly one entry for each LendPro field, with the value of the
  configuration, and no visualizer, cart-only or branding key.
\<close>

theorem buildEnvironmentVariables_credentials_only:
  assumes "cfg_visualizer config = None"
    and "case cfg_features config of None \<Rightarrow> True | Some f \<Rightarrow> \<not> ff_cartOnly f"
    and "case cfg_branding config of None \<Rightarrow> True
         | Some b \<Rightarrow> \<not> truthy (br_primaryColor b) \<and> \<not> truthy (br_secondaryColor b)
                     \<and> \<not> truthy (br_companyName b) \<and> \<not> truthy (br_logoUrl b)"
  shows "lookup_all ''NODE_ENV'' (buildEnvironmentVariables config m) = [''production'']
    \<and> lookup_all ''LENDPRO_API_URL'' (buildEnvironmentVariables config m) = [lp_apiUrl (cfg_lendpro config)]
    \<and> lookup_all ''LENDPRO_USERNAME'' (buildEnvironmentVariables config m) = [lp_username (cfg_lendpro config)]
    \<and> lookup_all ''LENDPRO_PASSWORD'' (buildEnvironmentVariables config m) = [lp_password (cfg_lendpro config)]
    \<and> lookup_all ''LENDPRO_STORE_ID'' (buildEnvironmentVariables config m) = [lp_storeId (cfg_lendpro config)]
    \<and> lookup_all ''LENDPRO_SALES_ID'' (buildEnvironmentVariables config m) = [lp_salesId (cfg_lendpro config)]
    \<and> lookup_all ''LENDPRO_SALES_NAME'' (buildEnvironmentVariables config m) = [lp_salesName (cfg_lendpro config)]
    \<and> fst ` set (buildEnvironmentVariables config m) \<inter>
        {''VISUALIZER_ENABLED'', ''VISUALIZER_EMBED_CODE'', ''AUTOSYNC_API_KEY'', ''CART_ONLY_MODE'',
         ''VITE_PRIMARY_COLOR'', ''VITE_SECONDARY_COLOR'', ''VITE_COMPANY_NAME'', ''VITE_LOGO_URL''} = {}"
  unfolding buildEnvironmentVariables_plain [OF assms] lookup_all_def by simp

theorem buildEnvironmentVariables_credentials_only_witness:
  "lookup_all ''NODE_ENV'' (buildEnvironmentVariables scenarioA ''svc-db'') = [''production'']
    \<and> lookup_all ''LENDPRO_API_URL'' (buildEnvironmentVariables scenarioA ''svc-db'')
        = [''https://apisg.mylendpro.com'']
    \<and> lookup_all ''LENDPRO_USERNAME'' (buildEnvironmentVariables scenarioA ''svc-db'') = [''u'']
    \<and> lookup_all ''LENDPRO_PASSWORD'' (buildEnvironmentVariables scenarioA ''svc-db'') = [''p'']
    \<and> lookup_all ''LENDPRO_STORE_ID'' (buildEnvironmentVariables scenarioA ''svc-db'') = [''S1'']
    \<and> lookup_all ''LENDPRO_SALES_ID'' (buildEnvironmentVariables scenarioA ''svc-db'') = [''X1'']
    \<and> lookup_all ''LENDPRO_SALES_NAME'' (buildEnvironmentVariables scenarioA ''svc-db'') = [''Jane'']
    \<and> fst ` set (buildEnvironmentVariables scenarioA ''svc-db'') \<inter>
        {''VISUALIZER_ENABLED'', ''VISUALIZER_EMBED_CODE'', ''AUTOSYNC_API_KEY'', ''CART_ONLY_MODE'',
         ''VITE_PRIMARY_COLOR'', ''VITE_SECONDARY_COLOR'', ''VITE_COMPANY_NAME'', ''VITE_LOGO_URL''} = {}"
  using buildEnvironmentVariables_credentials_only [of scenarioA "''svc-db''"]
  by (simp add: scenarioA_def)

subsection \<open>Project name\<close>


lemma is_whitespace_toLowerCase_char [simp]:
  "is_whitespace (toLowerCase_char c) = is_whitespace c"
  by (auto simp: toLowerCase_char_def is_whitespace_def Let_def)

lemma toLowerCase_char_space [simp]: "toLowerCase_char CHR '' '' = CHR '' ''"
  by (simp add: toLowerCase_char_def)

lemma is_whitespace_space [simp]: "is_whitespace CHR '' ''"
  by (simp add: is_whitespace_def)

lemma toLowerCase_char_not_space:
  "\<not> is_whitespace c \<Longrightarrow> toLowerCase_char c \<noteq> CHR '' ''"
  by (metis is_whitespace_toLowerCase_char is_whitespace_space)

lemma replace_single_spaced:
  "single_spaced s \<Longrightarrow> replace_whitespace_runs ''-'' (toLowerCase s) = spec_project_name s"
proof (induction s rule: single_spaced.induct)
  case 1
  then show ?case by (simp add: toLowerCase_def spec_project_name_def)
next
  case (2 c)
  then show ?case
    by (auto simp: toLowerCase_def spec_project_name_def toLowerCase_char_not_space)
next
  case (3 c d cs)
  then show ?case
    by (auto simp: toLowerCase_def spec_project_name_def toLowerCase_char_not_space)
qed

subsection \<open>Completion polling\<close>

lemma trace_emit [simp]: "trace (emit e w) = trace w @ [e]"
  by (simp add: emit_def)

lemma trace_sleep [simp]: "trace (sleep rc ms w) = trace w @ [Sleep ms]"
  by (simp add: sleep_def emit_def)

lemma trace_console [simp]:
  "trace (console_warn l e w) = trace w" "trace (console_error l e w) = trace w"
  by (simp_all add: console_warn_def console_error_def)


lemma new_events_append: "trace w' = trace w @ evs \<Longrightarrow> new_events w w' = evs"
  by (simp add: new_events_def)

lemma loop_unfold_timeout:
  "\<not> clock w - startTime < timeout \<Longrightarrow>
   waitForDeployment_loop rc d timeout startTime w =
     (Inl (Error (''Deployment timed out after '' @ string_of_nat timeout @ ''ms'')), w)"
  by (subst waitForDeployment_loop.simps) simp

lemma loop_unfold_poll:
  "clock w - startTime < timeout \<Longrightarrow> r_getDeploymentStatus rc (clock w) d = Inr st \<Longrightarrow>
   waitForDeployment_loop rc d timeout startTime w =
     (if st_status st = ''SUCCESS'' \<or> st_status st = ''ACTIVE''
      then (Inr st, (emit (GetDeploymentStatus d) w)\<lparr>clock := clock w + r_latency rc (clock w)\<rparr>)
      else if st_status st = ''FAILED'' \<or> st_status st = ''CRASHED''
      then (Inl (Error (''Deployment failed with status: '' @ st_status st)),
            (emit (GetDeploymentStatus d) w)\<lparr>clock := clock w + r_latency rc (clock w)\<rparr>)
      else waitForDeployment_loop rc d timeout startTime
             (sleep rc pollInterval
                ((emit (GetDeploymentStatus d) w)\<lparr>clock := clock w + r_latency rc (clock w)\<rparr>)))"
  by (subst waitForDeployment_loop.simps) (simp add: Let_def)

lemma loop_unfold_throw:
  "clock w - startTime < timeout \<Longrightarrow> r_getDeploymentStatus rc (clock w) d = Inl e \<Longrightarrow>
   waitForDeployment_loop rc d timeout startTime w =
     (Inl e, (emit (GetDeploymentStatus d) w)\<lparr>clock := clock w + r_latency rc (clock w)\<rparr>)"
  by (subst waitForDeployment_loop.simps) (simp add: Let_def)

text \<open>The loop changes the clock and the trace only, and records polls and sleeps only.\<close>

lemma loop_frame:
  "\<exists>c evs. snd (waitForDeployment_loop rc d timeout startTime w)
              = w\<lparr>clock := c, trace := trace w @ evs\<rparr>
           \<and> clock w \<le> c \<and> set evs \<subseteq> {GetDeploymentStatus d, Sleep pollInterval}"
proof (induction rc d timeout startTime w rule: waitForDeployment_loop.induct)
  case (1 rc d timeout startTime w)
  let ?w1 = "(emit (GetDeploymentStatus d) w)\<lparr>clock := clock w + r_latency rc (clock w)\<rparr>"
  have base: "\<exists>c evs. w = w\<lparr>clock := c, trace := trace w @ evs\<rparr>
           \<and> clock w \<le> c \<and> set evs \<subseteq> {GetDeploymentStatus d, Sleep pollInterval}"
    by (rule exI [of _ "clock w"], rule exI [of _ "[]"]) simp
  have one: "\<exists>c evs. ?w1 = w\<lparr>clock := c, trace := trace w @ evs\<rparr>
           \<and> clock w \<le> c \<and> set evs \<subseteq> {GetDeploymentStatus d, Sleep pollInterval}"
    by (rule exI [of _ "clock w + r_latency rc (clock w)"], rule exI [of _ "[GetDeploymentStatus d]"])
       (simp add: emit_def)
  show ?case
  proof (cases "clock w - startTime < timeout")
    case False
    then show ?thesis using base by (simp add: loop_unfold_timeout)
  next
    case True
    show ?thesis
    proof (cases "r_getDeploymentStatus rc (clock w) d")
      case (Inl e)
      with True one show ?thesis by (simp add: loop_unfold_throw)
    next
      case (Inr st)
      show ?thesis
      proof (cases "in_progress (st_status st)")
        case False
        with True Inr one show ?thesis
          by (auto simp: loop_unfold_poll in_progress_def)
      next
        case ip: True
        from ip have n: "\<not> (st_status st = ''SUCCESS'' \<or> st_status st = ''ACTIVE'')"
          "\<not> (st_status st = ''FAILED'' \<or> st_status st = ''CRASHED'')"
          by (auto simp: in_progress_def)
        let ?w2 = "sleep rc pollInterval ?w1"
        from "1.IH" [OF True refl Inr n]
        obtain c evs where
          s: "snd (waitForDeployment_loop rc d timeout startTime ?w2) = ?w2\<lparr>clock := c, trace := trace ?w2 @ evs\<rparr>"
          and c: "clock ?w2 \<le> c" and e: "set evs \<subseteq> {GetDeploymentStatus d, Sleep pollInterval}"
          by blast
        have "snd (waitForDeployment_loop rc d timeout startTime w)
                = w\<lparr>clock := c, trace := trace w @ ([GetDeploymentStatus d, Sleep pollInterval] @ evs)\<rparr>"
          using True Inr n s by (simp add: loop_unfold_poll sleep_def emit_def)
        moreover have "clock w \<le> c" using c by (simp add: sleep_def emit_def)
        moreover have "set ([GetDeploymentStatus d, Sleep pollInterval] @ evs)
              \<subseteq> {GetDeploymentStatus d, Sleep pollInterval}" using e by auto
        ultimately show ?thesis by blast
      qed
    qed
  qed
qed


lemma round_bound:
  fixes p :: nat
  assumes p: "0 < p" and c: "cw + p \<le> c2" and t: "cw - s < t"
    and b: "m * p \<le> (s + t - c2) + (p - 1)"
  shows "Suc m * p \<le> (s + t - cw) + (p - 1)"
proof (cases "s + t \<le> c2")
  case True
  then have "s + t - c2 = 0" by simp
  with b have "m * p \<le> p - 1" by simp
  with p have "m * p < p" by linarith
  then have "m = 0" by (cases m) auto
  moreover from t have "cw < s + t" by linarith
  ultimately show ?thesis using p by simp
next
  case False
  then have "m * p + c2 \<le> s + t + (p - 1)" using b by linarith
  then have "m * p + p + cw \<le> s + t + (p - 1)" using c by linarith
  then show ?thesis by simp
qed

text \<open>
  A build that never leaves the in-progress statuses: the loop ends with the timeout
  error, not before the timeout has elapsed, after rounds of one poll and one sleep of
  \<open>pollInterval\<close> each, and the rounds fit into the time that was left.
\<close>

lemma loop_stuck:
  assumes stuck: "\<forall>t. \<exists>st. r_getDeploymentStatus rc t d = Inr st \<and> in_progress (st_status st)"
  shows "fst (waitForDeployment_loop rc d timeout startTime w)
           = Inl (Error (''Deployment timed out after '' @ string_of_nat timeout @ ''ms''))
       \<and> timeout \<le> clock (snd (waitForDeployment_loop rc d timeout startTime w)) - startTime
       \<and> (\<exists>n. trace (snd (waitForDeployment_loop rc d timeout startTime w))
                 = trace w @ concat (replicate n [GetDeploymentStatus d, Sleep pollInterval])
              \<and> n * pollInterval \<le> (startTime + timeout - clock w) + (pollInterval - 1))"
  using stuck
proof (induction rc d timeout startTime w rule: waitForDeployment_loop.induct)
  case (1 rc d timeout startTime w)
  note stuck = "1.prems"
  show ?case
  proof (cases "clock w - startTime < timeout")
    case False
    have "trace w = trace w @ concat (replicate 0 [GetDeploymentStatus d, Sleep pollInterval])
       \<and> 0 * pollInterval \<le> (startTime + timeout - clock w) + (pollInterval - 1)" by simp
    then have "\<exists>n. trace w = trace w @ concat (replicate n [GetDeploymentStatus d, Sleep pollInterval])
       \<and> n * pollInterval \<le> (startTime + timeout - clock w) + (pollInterval - 1)" by blast
    with False show ?thesis by (simp add: loop_unfold_timeout)
  next
    case True
    from stuck obtain st where Inr: "r_getDeploymentStatus rc (clock w) d = Inr st"
      and ip: "in_progress (st_status st)" by blast
    from ip have n: "\<not> (st_status st = ''SUCCESS'' \<or> st_status st = ''ACTIVE'')"
      "\<not> (st_status st = ''FAILED'' \<or> st_status st = ''CRASHED'')"
      by (auto simp: in_progress_def)
    let ?w2 = "sleep rc pollInterval ((emit (GetDeploymentStatus d) w)
                    \<lparr>clock := clock w + r_latency rc (clock w)\<rparr>)"
    have eq: "waitForDeployment_loop rc d timeout startTime w
                = waitForDeployment_loop rc d timeout startTime ?w2"
      using True Inr n by (simp add: loop_unfold_poll)
    from "1.IH" [OF True refl Inr n stuck]
    obtain m where r: "fst (waitForDeployment_loop rc d timeout startTime ?w2)
           = Inl (Error (''Deployment timed out after '' @ string_of_nat timeout @ ''ms''))"
      and t: "timeout \<le> clock (snd (waitForDeployment_loop rc d timeout startTime ?w2)) - startTime"
      and tr: "trace (snd (waitForDeployment_loop rc d timeout startTime ?w2))
                 = trace ?w2 @ concat (replicate m [GetDeploymentStatus d, Sleep pollInterval])"
      and b: "m * pollInterval \<le> (startTime + timeout - clock ?w2) + (pollInterval - 1)"
      by blast
    have c2: "clock w + pollInterval \<le> clock ?w2" by (simp add: sleep_def emit_def)
    have "trace (snd (waitForDeployment_loop rc d timeout startTime ?w2))
            = trace w @ concat (replicate (Suc m) [GetDeploymentStatus d, Sleep pollInterval])"
      using tr by (simp add: sleep_def emit_def)
    moreover have "Suc m * pollInterval \<le> (startTime + timeout - clock w) + (pollInterval - 1)"
      using round_bound [OF _ c2 True b] by (simp add: pollInterval_def)
    ultimately show ?thesis using r t eq by (simp only:) blast
  qed
qed


lemma polls_rounds [simp]:
  "polls (concat (replicate n [GetDeploymentStatus d, Sleep p])) = n"
  by (induction n) (simp_all add: polls_def)

lemma sleeps_rounds [simp]:
  "sleeps (concat (replicate n [GetDeploymentStatus d, Sleep p])) = replicate n p"
  by (induction n) (simp_all add: sleeps_def)

lemma rounds_bound:
  fixes n :: nat
  assumes "0 < p" and "n * p \<le> t + (p - 1)"
  shows "n \<le> t div p + 1"
proof -
  have "t < p + p * (t div p)" using assms(1) by (rule dividend_less_times_div)
  with assms have "n * p < p + p * (t div p) + p" by linarith
  then have "n * p < (t div p + 2) * p" by (simp add: algebra_simps)
  then have "n < t div p + 2" using mult_less_cancel2 [of n p "t div p + 2"] by blast
  then show ?thesis by simp
qed

text \<open>While the time limit has not passed, a build that stays in progress is polled at least once.\<close>

lemma loop_stuck_first:
  assumes stuck: "\<forall>t. \<exists>st. r_getDeploymentStatus rc t d = Inr st \<and> in_progress (st_status st)"
    and go: "clock w - startTime < timeout"
  shows "\<exists>m. trace (snd (waitForDeployment_loop rc d timeout startTime w))
               = trace w @ concat (replicate (Suc m) [GetDeploymentStatus d, Sleep pollInterval])"
proof -
  from stuck obtain st where Inr: "r_getDeploymentStatus rc (clock w) d = Inr st"
    and ip: "in_progress (st_status st)" by blast
  from ip have n: "\<not> (st_status st = ''SUCCESS'' \<or> st_status st = ''ACTIVE'')"
    "\<not> (st_status st = ''FAILED'' \<or> st_status st = ''CRASHED'')"
    by (auto simp: in_progress_def)
  let ?w2 = "sleep rc pollInterval ((emit (GetDeploymentStatus d) w)
                  \<lparr>clock := clock w + r_latency rc (clock w)\<rparr>)"
  have eq: "waitForDeployment_loop rc d timeout startTime w
              = waitForDeployment_loop rc d timeout startTime ?w2"
    using go Inr n by (simp add: loop_unfold_poll)
  from loop_stuck [OF stuck, of timeout startTime ?w2]
  obtain m where tr: "trace (snd (waitForDeployment_loop rc d timeout startTime ?w2))
               = trace ?w2 @ concat (replicate m [GetDeploymentStatus d, Sleep pollInterval])"
    by blast
  have "trace (snd (waitForDeployment_loop rc d timeout startTime w))
          = trace w @ concat (replicate (Suc m) [GetDeploymentStatus d, Sleep pollInterval])"
    unfolding eq tr by (simp add: sleep_def emit_def)
  then show ?thesis by blast
qed

lemma ceil_step:
  fixes p :: nat
  assumes p: "0 < p" and r: "0 < r"
  shows "(r + (p - 1)) div p = Suc ((r - p + (p - 1)) div p)"
proof (cases "p \<le> r")
  case True
  then have "r + (p - 1) = (r - p + (p - 1)) + p" by simp
  then have "(r + (p - 1)) div p = ((r - p + (p - 1)) + p) div p" by (simp only:)
  also have "\<dots> = (r - p + (p - 1)) div p + 1" using p by (simp only: div_add_self2)
  finally show ?thesis by simp
next
  case False
  then have z: "r - p = 0" by simp
  have "(r + (p - 1)) div p = 1"
  proof (rule div_nat_eqI)
    show "p * 1 \<le> r + (p - 1)" using r by simp
    show "r + (p - 1) < p * Suc 1" using False p by simp
  qed
  moreover have "(p - 1) div p = 0" using p by simp
  ultimately show ?thesis by (simp add: z)
qed

text \<open>
  With a platform that answers at once and a timer that fires on time, the rounds are
  counted exactly: the time that was left, divided by \<open>pollInterval\<close> and rounded up.
\<close>

lemma loop_stuck_ideal:
  assumes stuck: "\<forall>t. \<exists>st. r_getDeploymentStatus rc t d = Inr st \<and> in_progress (st_status st)"
    and ideal: "\<forall>t. r_latency rc t = 0 \<and> r_timer_lag rc t = 0"
    and start: "startTime \<le> clock w"
  shows "trace (snd (waitForDeployment_loop rc d timeout startTime w))
           = trace w @ concat (replicate ((startTime + timeout - clock w + (pollInterval - 1)) div pollInterval)
                                 [GetDeploymentStatus d, Sleep pollInterval])
       \<and> clock (snd (waitForDeployment_loop rc d timeout startTime w))
           = clock w + ((startTime + timeout - clock w + (pollInterval - 1)) div pollInterval) * pollInterval"
  using stuck ideal start
proof (induction rc d timeout startTime w rule: waitForDeployment_loop.induct)
  case (1 rc d timeout startTime w)
  note stuck = "1.prems"(1) and ideal = "1.prems"(2) and start = "1.prems"(3)
  have p: "0 < pollInterval" by (simp add: pollInterval_def)
  show ?case
  proof (cases "clock w - startTime < timeout")
    case False
    with start have "startTime + timeout - clock w = 0" by simp
    moreover have "(pollInterval - 1) div pollInterval = 0" using p by simp
    ultimately show ?thesis using False by (simp add: loop_unfold_timeout)
  next
    case True
    from stuck obtain st where Inr: "r_getDeploymentStatus rc (clock w) d = Inr st"
      and ip: "in_progress (st_status st)" by blast
    from ip have n: "\<not> (st_status st = ''SUCCESS'' \<or> st_status st = ''ACTIVE'')"
      "\<not> (st_status st = ''FAILED'' \<or> st_status st = ''CRASHED'')"
      by (auto simp: in_progress_def)
    let ?w2 = "sleep rc pollInterval ((emit (GetDeploymentStatus d) w)
                    \<lparr>clock := clock w + r_latency rc (clock w)\<rparr>)"
    have eq: "waitForDeployment_loop rc d timeout startTime w
                = waitForDeployment_loop rc d timeout startTime ?w2"
      using True Inr n by (simp add: loop_unfold_poll)
    have c2: "clock ?w2 = clock w + pollInterval" using ideal by (simp add: sleep_def emit_def)
    have t2: "trace ?w2 = trace w @ [GetDeploymentStatus d, Sleep pollInterval]"
      by (simp add: sleep_def emit_def)
    have s2: "startTime \<le> clock ?w2" using start c2 by simp
    let ?r = "startTime + timeout - clock w"
    have r: "0 < ?r" using True start by linarith
    have r2: "startTime + timeout - clock ?w2 = ?r - pollInterval" using c2 by simp
    note IH = "1.IH" [OF True refl Inr n stuck ideal s2, unfolded r2 t2 c2]
    have cs: "(?r + (pollInterval - 1)) div pollInterval
                = Suc ((?r - pollInterval + (pollInterval - 1)) div pollInterval)"
      by (rule ceil_step [OF p r])
    show ?thesis unfolding eq cs using IH by simp
  qed
qed

lemma string_of_nat_300000: "string_of_nat 300000 = ''300000''"
  by (simp add: string_of_nat.simps char_of_def bit_0)

text \<open>
  Claim C5, amended. When every poll of \<open>getDeploymentStatus\<close> answers with a status the
  loop goes on waiting at, \<open>waitForDeployment\<close> throws an error of the class \<open>Error\<close> with
  the message \<open>Deployment timed out after <timeout>ms\<close>; the code has no class
  \<open>DeploymentTimeoutError\<close>. What the loop has done by then is a number of rounds, each
  of one status request followed by one sleep of the constant \<open>pollInterval\<close>, and nothing
  else. The clock has advanced by the timeout or more. The number of rounds is at least one when the timeout is positive, and at most
  \<open>timeout div pollInterval + 1\<close>. With a platform that answers at once and a timer that
  fires on time it is the timeout divided by \<open>pollInterval\<close>, rounded up, and the clock
  has advanced by that many intervals.
\<close>

theorem waitForDeployment_times_out:
  assumes "\<forall>t. \<exists>st. r_getDeploymentStatus rc t d = Inr st \<and> in_progress (st_status st)"
  shows "fst (waitForDeployment rc d timeout w)
           = Inl (Error (''Deployment timed out after '' @ string_of_nat timeout @ ''ms''))
       \<and> new_events w (snd (waitForDeployment rc d timeout w))
           = concat (replicate (polls (new_events w (snd (waitForDeployment rc d timeout w))))
                       [GetDeploymentStatus d, Sleep pollInterval])
       \<and> timeout \<le> clock (snd (waitForDeployment rc d timeout w)) - clock w
       \<and> (0 < timeout \<longrightarrow> 1 \<le> polls (new_events w (snd (waitForDeployment rc d timeout w))))
       \<and> polls (new_events w (snd (waitForDeployment rc d timeout w))) \<le> timeout div pollInterval + 1
       \<and> ((\<forall>t. r_latency rc t = 0 \<and> r_timer_lag rc t = 0) \<longrightarrow>
            polls (new_events w (snd (waitForDeployment rc d timeout w)))
              = (timeout + (pollInterval - 1)) div pollInterval
            \<and> clock (snd (waitForDeployment rc d timeout w))
              = clock w + polls (new_events w (snd (waitForDeployment rc d timeout w))) * pollInterval)"
proof -
  let ?w' = "snd (waitForDeployment rc d timeout w)"
  from loop_stuck [OF assms, of timeout "clock w" w]
  obtain n where r: "fst (waitForDeployment rc d timeout w)
           = Inl (Error (''Deployment timed out after '' @ string_of_nat timeout @ ''ms''))"
    and t: "timeout \<le> clock ?w' - clock w"
    and tr: "trace ?w' = trace w @ concat (replicate n [GetDeploymentStatus d, Sleep pollInterval])"
    and b: "n * pollInterval \<le> timeout + (pollInterval - 1)"
    unfolding waitForDeployment_def by auto
  have ev: "new_events w ?w' = concat (replicate n [GetDeploymentStatus d, Sleep pollInterval])"
    by (simp add: new_events_def tr)
  have pn: "polls (new_events w ?w') = n" by (simp add: ev)
  have ub: "n \<le> timeout div pollInterval + 1"
    using rounds_bound [OF _ b] by (simp add: pollInterval_def)
  have lb: "1 \<le> n" if "0 < timeout"
  proof -
    from that have go: "clock w - clock w < timeout" by simp
    from loop_stuck_first [OF assms go] obtain m where
      "trace ?w' = trace w @ concat (replicate (Suc m) [GetDeploymentStatus d, Sleep pollInterval])"
      unfolding waitForDeployment_def by blast
    then have "new_events w ?w' = concat (replicate (Suc m) [GetDeploymentStatus d, Sleep pollInterval])"
      by (rule new_events_append)
    then have "polls (new_events w ?w') = Suc m" by (simp only: polls_rounds)
    with pn show ?thesis by simp
  qed
  have ideal: "n = (timeout + (pollInterval - 1)) div pollInterval \<and> clock ?w' = clock w + n * pollInterval"
    if i: "\<forall>t. r_latency rc t = 0 \<and> r_timer_lag rc t = 0"
  proof -
    from loop_stuck_ideal [OF assms i, of "clock w" w timeout]
    have tr': "trace ?w' = trace w @ concat (replicate ((timeout + (pollInterval - 1)) div pollInterval)
                                 [GetDeploymentStatus d, Sleep pollInterval])"
      and c: "clock ?w' = clock w + ((timeout + (pollInterval - 1)) div pollInterval) * pollInterval"
      unfolding waitForDeployment_def by simp_all
    from tr' have "new_events w ?w' = concat (replicate ((timeout + (pollInterval - 1)) div pollInterval)
                                 [GetDeploymentStatus d, Sleep pollInterval])"
      by (rule new_events_append)
    then have "polls (new_events w ?w') = (timeout + (pollInterval - 1)) div pollInterval"
      by (simp only: polls_rounds)
    with pn c show ?thesis by simp
  qed
  show ?thesis unfolding pn using r ev t lb ub ideal by (simp only: pn) blast
qed

theorem waitForDeployment_times_out_witness:
  "fst (waitForDeployment railway_down ''dpl-1'' 300000 world0)
           = Inl (Error ''Deployment timed out after 300000ms'')
   \<and> new_events world0 (snd (waitForDeployment railway_down ''dpl-1'' 300000 world0))
       = concat (replicate 60 [GetDeploymentStatus ''dpl-1'', Sleep 5000])
   \<and> polls (new_events world0 (snd (waitForDeployment railway_down ''dpl-1'' 300000 world0))) = 60
   \<and> clock (snd (waitForDeployment railway_down ''dpl-1'' 300000 world0)) = clock world0 + 300000"
proof -
  have h: "\<forall>t. \<exists>st. r_getDeploymentStatus railway_down t ''dpl-1'' = Inr st \<and> in_progress (st_status st)"
    by (simp add: railway_down_def in_progress_def)
  have i: "\<forall>t. r_latency railway_down t = 0 \<and> r_timer_lag railway_down t = 0"
    by (simp add: railway_down_def)
  from waitForDeployment_times_out [OF h, of 300000 world0] i show ?thesis
    by (clarsimp simp: pollInterval_def string_of_nat_300000)
qed

text \<open>
  The claim as stated fails on the class of the error: after a timeout of 300000 ms on a
  build that stays \<open>building\<close>, the error thrown has the name \<open>Error\<close>, not
  \<open>DeploymentTimeoutError\<close>.
\<close>

theorem waitForDeployment_timeout_error_counterexample:
  "(case fst (waitForDeployment railway_down ''dpl-1'' 300000 world0) of
      Inl e \<Rightarrow> error_name e = ''Error'' \<and> error_name e \<noteq> ''DeploymentTimeoutError''
               \<and> message e = ''Deployment timed out after 300000ms''
    | Inr st \<Rightarrow> False)"
proof -
  have "\<forall>t. \<exists>st. r_getDeploymentStatus railway_down t ''dpl-1'' = Inr st \<and> in_progress (st_status st)"
    by (simp add: railway_down_def in_progress_def)
  from loop_stuck [OF this, of 300000 "clock world0" world0]
  show ?thesis by (simp add: waitForDeployment_def string_of_nat_300000)
qed



subsection \<open>Frames of the orchestrator\<close>

lemma frameI:
  assumes "tbl_clients w' = tbl_clients w" "tbl_lendpro w' = tbl_lendpro w"
    "tbl_branding w' = tbl_branding w" "tbl_features w' = tbl_features w"
    "tbl_visualizer w' = tbl_visualizer w" "tbl_deployments w' = tbl_deployments w"
    "tbl_analytics w' = tbl_analytics w" "tbl_audit w' = tbl_audit w"
    "clock w \<le> clock w'" "trace w' = trace w @ evs" "list_all P evs"
  shows "frame P w w'"
  unfolding frame_def using assms by (simp add: new_events_def)

lemma frame_trace: "frame P w w' \<Longrightarrow> trace w' = trace w @ new_events w w'"
  unfolding frame_def new_events_def prefix_def by auto

lemma frame_refl: "frame P w w"
  by (rule frameI [where evs = "[]"]) simp_all

lemma frame_trans:
  assumes a: "frame P w w1" and b: "frame P w1 w2"
  shows "frame P w w2"
proof (rule frameI [where evs = "new_events w w1 @ new_events w1 w2"])
  show "trace w2 = trace w @ new_events w w1 @ new_events w1 w2"
    using frame_trace [OF a] frame_trace [OF b] by simp
  show "list_all P (new_events w w1 @ new_events w1 w2)"
    using a b by (simp add: frame_def)
qed (use a b in \<open>simp_all add: frame_def\<close>)

lemma frame_emit:
  assumes "P e" and "frame P w w1"
  shows "frame P w (emit e w1)"
proof (rule frame_trans [OF assms(2)])
  show "frame P w1 (emit e w1)"
    by (rule frameI [where evs = "[e]"]) (simp_all add: emit_def assms(1))
qed

lemma frame_sleep:
  assumes "P (Sleep ms)" and "frame P w w1"
  shows "frame P w (sleep rc ms w1)"
proof (rule frame_trans [OF assms(2)])
  show "frame P w1 (sleep rc ms w1)"
    by (rule frameI [where evs = "[Sleep ms]"]) (simp_all add: sleep_def emit_def assms(1))
qed

lemma frame_console_warn: "frame P w w1 \<Longrightarrow> frame P w (console_warn l e w1)"
  by (erule frame_trans [of P w w1 "console_warn l e w1"])
     (rule frameI [where evs = "[]"], simp_all add: console_warn_def)

lemma frame_console_error: "frame P w w1 \<Longrightarrow> frame P w (console_error l e w1)"
  by (erule frame_trans [of P w w1 "console_error l e w1"])
     (rule frameI [where evs = "[]"], simp_all add: console_error_def)

lemma frame_loop:
  assumes "P (GetDeploymentStatus d)" and "P (Sleep pollInterval)"
  shows "frame P w (snd (waitForDeployment_loop rc d timeout startTime w))"
proof -
  from loop_frame [of rc d timeout startTime w]
  obtain c evs where s: "snd (waitForDeployment_loop rc d timeout startTime w)
              = w\<lparr>clock := c, trace := trace w @ evs\<rparr>"
    and c: "clock w \<le> c" and e: "set evs \<subseteq> {GetDeploymentStatus d, Sleep pollInterval}"
    by blast
  from e assms have "list_all P evs" by (auto simp: list_all_iff)
  with c show ?thesis unfolding s by (intro frameI [where evs = evs]) simp_all
qed

lemma frame_wait:
  "waitForDeployment rc d timeout w1 = (r, w2) \<Longrightarrow> P (GetDeploymentStatus d) \<Longrightarrow>
   P (Sleep pollInterval) \<Longrightarrow> frame P w w1 \<Longrightarrow> frame P w w2"
  using frame_loop [of P d w1 rc timeout "clock w1"]
  by (auto simp: waitForDeployment_def intro: frame_trans)

lemma deployClient_try_frame:
  "frame after_create
     (emit (CreateProject (''lendpro-'' @ replace_whitespace_runs ''-'' (toLowerCase (cfg_name config)))) w)
     (snd (deployClient_try d config w))"
  unfolding deployClient_try_def
  by (auto simp: Let_def after_create_def pollInterval_def split: sum.splits prod.splits
        intro!: frame_emit frame_sleep frame_console_warn frame_refl elim!: frame_wait)


lemma deployClient_frame:
  "frame after_create
     (emit (CreateProject (''lendpro-'' @ replace_whitespace_runs ''-'' (toLowerCase (cfg_name config)))) w)
     (snd (deployClient d config w))"
  using deployClient_try_frame [of config w d]
  by (auto simp: deployClient_def split: prod.splits sum.splits intro: frame_console_error)

lemma created_projects_after_create: "list_all after_create evs \<Longrightarrow> created_projects evs = []"
  by (induction evs) (simp_all add: created_projects_def after_create_def)

lemma deployClient_new_events:
  "\<exists>evs. new_events w (snd (deployClient d config w))
            = CreateProject (''lendpro-'' @ replace_whitespace_runs ''-'' (toLowerCase (cfg_name config))) # evs
         \<and> list_all after_create evs"
proof -
  let ?e = "CreateProject (''lendpro-'' @ replace_whitespace_runs ''-'' (toLowerCase (cfg_name config)))"
  let ?w' = "snd (deployClient d config w)"
  have f: "frame after_create (emit ?e w) ?w'" by (rule deployClient_frame)
  from frame_trace [OF f] have "trace ?w' = trace w @ ?e # new_events (emit ?e w) ?w'"
    by (simp add: emit_def)
  then have "new_events w ?w' = ?e # new_events (emit ?e w) ?w'"
    by (rule new_events_append)
  moreover from f have "list_all after_create (new_events (emit ?e w) ?w')"
    by (simp add: frame_def)
  ultimately show ?thesis by blast
qed

text \<open>
  Claim C8, amended. The first call \<open>deployClient\<close> makes on the platform is
  \<open>createProject\<close>, it is the only one of the run, and the name it passes is \<open>lendpro-\<close>
  followed by the display name lowercased with every run of whitespace replaced by one
  hyphen. For a display name whose only whitespace is single spaces this is \<open>lendpro-\<close>
  followed by the name lowercased with each space replaced by a hyphen.
\<close>

theorem deployClient_project_name:
  "take 1 (new_events w (snd (deployClient d config w)))
     = [CreateProject (''lendpro-'' @ replace_whitespace_runs ''-'' (toLowerCase (cfg_name config)))]
   \<and> created_projects (new_events w (snd (deployClient d config w)))
     = [''lendpro-'' @ replace_whitespace_runs ''-'' (toLowerCase (cfg_name config))]
   \<and> (single_spaced (cfg_name config) \<longrightarrow>
        created_projects (new_events w (snd (deployClient d config w)))
          = [''lendpro-'' @ spec_project_name (cfg_name config)])"
proof -
  from deployClient_new_events [of w d config] obtain evs where
    e: "new_events w (snd (deployClient d config w))
            = CreateProject (''lendpro-'' @ replace_whitespace_runs ''-'' (toLowerCase (cfg_name config))) # evs"
    and a: "list_all after_create evs" by blast
  have t: "take 1 (new_events w (snd (deployClient d config w)))
     = [CreateProject (''lendpro-'' @ replace_whitespace_runs ''-'' (toLowerCase (cfg_name config)))]"
    by (simp add: e)
  have cp: "created_projects (new_events w (snd (deployClient d config w)))
     = [''lendpro-'' @ replace_whitespace_runs ''-'' (toLowerCase (cfg_name config))]"
    using created_projects_after_create [OF a] by (simp add: e created_projects_def)
  show ?thesis unfolding t cp by (simp add: replace_single_spaced)
qed

lemma toLowerCase_Acme: "toLowerCase ''Acme'' = ''acme''"
  by (simp add: toLowerCase_def toLowerCase_char_def char_of_def bit_0)

lemma slug_acme: "replace_whitespace_runs ''-'' ''acme'' = ''acme''"
  by (simp add: is_whitespace_def)

theorem deployClient_project_name_witness:
  "single_spaced ''Acme''
   \<and> created_projects (new_events world0
        (snd (deployClient (new_ClientDeployer railway_ok None None) scenarioA world0)))
      = [''lendpro-acme'']"
  using deployClient_project_name [of world0 "new_ClientDeployer railway_ok None None" scenarioA]
  by (simp add: scenarioA_def toLowerCase_Acme slug_acme is_whitespace_def)

lemma toLowerCase_Acme_Corp: "toLowerCase ''Acme  Corp'' = ''acme  corp''"
  by (simp add: toLowerCase_def toLowerCase_char_def char_of_def bit_0)

lemma slug_acme_corp: "replace_whitespace_runs ''-'' ''acme  corp'' = ''acme-corp''"
  by (simp add: is_whitespace_def)

text \<open>
  The claim as the specification words it fails on the display name \<open>Acme  Corp\<close>, with
  two spaces: the project is named \<open>lendpro-acme-corp\<close>, which is neither the name
  lowercased with its spaces replaced by hyphens, \<open>acme--corp\<close>, nor that with the
  prefix.
\<close>

theorem project_name_counterexample:
  "created_projects (new_events world0
        (snd (deployClient (new_ClientDeployer railway_down None None) scenario_two_spaces world0)))
      = [''lendpro-acme-corp'']
   \<and> spec_project_name (cfg_name scenario_two_spaces) = ''acme--corp''
   \<and> ''lendpro-acme-corp'' \<noteq> spec_project_name (cfg_name scenario_two_spaces)
   \<and> ''lendpro-acme-corp'' \<noteq> ''lendpro-'' @ spec_project_name (cfg_name scenario_two_spaces)"
  by (simp add: deployClient_def deployClient_try_def new_ClientDeployer_def railway_down_def
        scenario_two_spaces_def scenarioA_def world0_def Let_def toLowerCase_Acme_Corp slug_acme_corp
        spec_project_name_def new_events_def created_projects_def emit_def console_error_def
        is_whitespace_def)

subsection \<open>Secrets codec\<close>

lemma getEncryptionKey_present: "masterKey \<noteq> [] \<Longrightarrow> getEncryptionKey (Some masterKey) = Inr masterKey"
  by (simp add: getEncryptionKey_def)

lemma slices:
  assumes "length salt = SALT_LENGTH" "length iv = IV_LENGTH" "length tag = TAG_LENGTH"
  shows "slice_buffer (salt @ iv @ tag @ data) 0 SALT_LENGTH = salt"
    and "slice_buffer (salt @ iv @ tag @ data) SALT_LENGTH (SALT_LENGTH + IV_LENGTH) = iv"
    and "slice_buffer (salt @ iv @ tag @ data) (SALT_LENGTH + IV_LENGTH) (SALT_LENGTH + IV_LENGTH + TAG_LENGTH) = tag"
    and "slice_from (salt @ iv @ tag @ data) (SALT_LENGTH + IV_LENGTH + TAG_LENGTH) = data"
  using assms by (simp_all add: slice_buffer_def slice_from_def)

lemma roundtrip:
  assumes key: "masterKey \<noteq> []"
    and salt: "length salt = SALT_LENGTH" and iv: "length iv = IV_LENGTH"
    and kdf: "\<forall>password s iterations keylen digest.
                length (pbkdf2Sync lib password s iterations keylen digest) = keylen"
    and gcm: "\<forall>k v data. length k = KEY_LENGTH \<and> length v = IV_LENGTH \<longrightarrow>
                (case cipher_gcm lib ALGORITHM k v data of
                   None \<Rightarrow> False
                 | Some (c, tag) \<Rightarrow> length tag = TAG_LENGTH
                                    \<and> decipher_gcm lib ALGORITHM k v tag c = Some data)"
    and hex: "\<forall>b. hex_decode lib (hex_encode lib b) = b"
    and b64: "\<forall>b. base64_decode lib (base64_encode lib b) = b"
  shows "case cipher_gcm lib ALGORITHM (deriveKey lib salt masterKey) iv (utf8_encode lib plaintext) of
           None \<Rightarrow> False
         | Some (data, tag) \<Rightarrow>
             encryptPassword lib (Some masterKey) salt iv plaintext
               = Inr (base64_encode lib (salt @ iv @ tag @ data))
             \<and> decryptPassword lib (Some masterKey) (base64_encode lib (salt @ iv @ tag @ data))
               = Inr (utf8_decode lib (utf8_encode lib plaintext))"
proof -
  let ?k = "deriveKey lib salt masterKey"
  have lk: "length ?k = KEY_LENGTH" using kdf by (simp add: deriveKey_def)
  from gcm lk iv
  have g: "case cipher_gcm lib ALGORITHM ?k iv (utf8_encode lib plaintext) of
                   None \<Rightarrow> False
                 | Some (c, tag) \<Rightarrow> length tag = TAG_LENGTH
                      \<and> decipher_gcm lib ALGORITHM ?k iv tag c = Some (utf8_encode lib plaintext)"
    by blast
  then obtain data tag where c: "cipher_gcm lib ALGORITHM ?k iv (utf8_encode lib plaintext) = Some (data, tag)"
    and lt: "length tag = TAG_LENGTH"
    and d: "decipher_gcm lib ALGORITHM ?k iv tag data = Some (utf8_encode lib plaintext)"
    by (auto split: option.splits)
  have enc: "encryptPassword lib (Some masterKey) salt iv plaintext
               = Inr (base64_encode lib (salt @ iv @ tag @ data))"
    using hex by (simp add: encryptPassword_def getEncryptionKey_present [OF key] c Let_def)
  have dec: "decryptPassword lib (Some masterKey) (base64_encode lib (salt @ iv @ tag @ data))
               = Inr (utf8_decode lib (utf8_encode lib plaintext))"
    using hex b64 d
    by (simp add: decryptPassword_def getEncryptionKey_present [OF key] Let_def
          slices [OF salt iv lt])
  show ?thesis using enc dec by (simp add: c)
qed


lemma test_decode_encode: "char_of (unat (of_char c :: 8 word)) = c"
proof -
  have "(of_char c :: 8 word) = of_nat (of_char c)" by (simp add: of_nat_of_char)
  then have "unat (of_char c :: 8 word) = of_char c mod 256"
    by (simp add: unat_of_nat)
  then show ?thesis by simp
qed

lemma test_encode_decode: "(of_char (char_of (unat (b :: 8 word))) :: 8 word) = b"
proof -
  have "(of_char (char_of (unat b)) :: 8 word) = of_nat (of_char (char_of (unat b)))"
    by (simp only: of_nat_of_char)
  also have "\<dots> = of_nat (unat b mod 256)" by simp
  also have "\<dots> = of_nat (unat b)"
    using unsigned_less [of b, where 'a = nat] by simp
  finally show ?thesis by simp
qed


lemma test_crypto_contract:
  "\<forall>password s iterations keylen digest.
      length (pbkdf2Sync test_crypto password s iterations keylen digest) = keylen"
  "\<forall>k v data. length k = KEY_LENGTH \<and> length v = IV_LENGTH \<longrightarrow>
                (case cipher_gcm test_crypto ALGORITHM k v data of
                   None \<Rightarrow> False
                 | Some (c, tag) \<Rightarrow> length tag = TAG_LENGTH
                                    \<and> decipher_gcm test_crypto ALGORITHM k v tag c = Some data)"
  "\<forall>b. hex_decode test_crypto (hex_encode test_crypto b) = b"
  "\<forall>b. base64_decode test_crypto (base64_encode test_crypto b) = b"
  "utf8_decode test_crypto (utf8_encode test_crypto plaintext) = plaintext"
  by (simp_all add: test_crypto_def TAG_LENGTH_def comp_def test_decode_encode test_encode_decode)

lemma decrypt_stored_password:
  "decryptPassword test_crypto (Some test_key) stored_password = Inr ''p''"
proof -
  have c: "\<And>k v d. cipher_gcm test_crypto ALGORITHM k v d = Some (d, replicate 16 0)"
    by (simp add: test_crypto_def)
  have "case cipher_gcm test_crypto ALGORITHM (deriveKey test_crypto (replicate 64 0) test_key)
               (replicate 16 0) (utf8_encode test_crypto ''p'') of
           None \<Rightarrow> False
         | Some (data, tag) \<Rightarrow>
             encryptPassword test_crypto (Some test_key) (replicate 64 0) (replicate 16 0) ''p''
               = Inr (base64_encode test_crypto (replicate 64 0 @ replicate 16 0 @ tag @ data))
             \<and> decryptPassword test_crypto (Some test_key)
                  (base64_encode test_crypto (replicate 64 0 @ replicate 16 0 @ tag @ data))
               = Inr (utf8_decode test_crypto (utf8_encode test_crypto ''p''))"
    by (rule roundtrip)
       (simp_all add: test_key_def SALT_LENGTH_def IV_LENGTH_def test_crypto_contract(1,2,3,4))
  then show ?thesis by (simp add: c stored_password_def test_crypto_contract(5))
qed

text \<open>The encodings of the second stand-in, and what it keeps of the contract of the library.\<close>

lemma hex_value_digit: "n < 16 \<Longrightarrow> hex_value (hex_digit n) = Some n"
  by (auto simp: hex_value_def hex_digit_def Let_def)

lemma hex_decode_encode_node: "hex_decode_node (hex_encode_node b) = b"
proof (induction b)
  case Nil then show ?case by (simp add: hex_encode_node_def)
next
  case (Cons x b)
  have "unat x < 256" using unsigned_less [of x, where 'a = nat] by simp
  then have d: "unat x div 16 < 16" by simp
  have m: "unat x mod 16 < 16" by simp
  have "(of_nat (16 * (unat x div 16) + unat x mod 16) :: 8 word) = x" by simp
  with Cons show ?case
    using hex_value_digit [OF d] hex_value_digit [OF m]
    by (simp add: hex_encode_node_def)
qed

lemma node_crypto_fields:
  "pbkdf2Sync node_crypto password salt iterations keylen digest
     = take keylen (password @ salt @ replicate keylen 0)"
  "cipher_gcm node_crypto alg key iv data = Some (data, take 16 (key @ replicate 16 0))"
  "decipher_gcm node_crypto alg key iv tag data
     = (if tag = take 16 (key @ replicate 16 0) then Some data else None)"
  "utf8_encode node_crypto = utf8_encode_utf16"
  "utf8_decode node_crypto = utf8_decode_utf16"
  "hex_encode node_crypto = hex_encode_node"
  "hex_decode node_crypto = hex_decode_node"
  "base64_encode node_crypto = map (\<lambda>b. char_of (unat b))"
  "base64_decode node_crypto = map of_char"
  by (simp_all add: node_crypto_def)

lemma node_crypto_contract:
  "\<forall>password s iterations keylen digest.
      length (pbkdf2Sync node_crypto password s iterations keylen digest) = keylen"
  "\<forall>k v data. length k = KEY_LENGTH \<and> length v = IV_LENGTH \<longrightarrow>
                (case cipher_gcm node_crypto ALGORITHM k v data of
                   None \<Rightarrow> False
                 | Some (c, tag) \<Rightarrow> length tag = TAG_LENGTH
                                    \<and> decipher_gcm node_crypto ALGORITHM k v tag c = Some data)"
  "\<forall>b. hex_decode node_crypto (hex_encode node_crypto b) = b"
  "\<forall>b. base64_decode node_crypto (base64_encode node_crypto b) = b"
  by (auto simp: node_crypto_fields TAG_LENGTH_def comp_def hex_decode_encode_node
        test_encode_decode)

lemma hex_decode_test_key:
  "hex_decode_node test_key
     = [0, 1, 2, 3, 4, 5, 6, 7, 8, 9, 10, 11, 12, 13, 14, 15,
        16, 17, 18, 19, 20, 21, 22, 23, 24, 25, 26, 27, 28, 29, 30, 31]"
  by (simp add: test_key_def hex_value_def)


lemma node_key:
  "deriveKey node_crypto (replicate 64 0) test_key
     = [0, 1, 2, 3, 4, 5, 6, 7, 8, 9, 10, 11, 12, 13, 14, 15,
        16, 17, 18, 19, 20, 21, 22, 23, 24, 25, 26, 27, 28, 29, 30, 31]"
  by (simp add: deriveKey_def node_crypto_fields hex_decode_test_key KEY_LENGTH_def)


lemma utf8_sample:
  "utf8_encode_utf16 [0x70, 0xE9, 0x20AC, 0xD83D, 0xDE00]
     = [0x70, 0xC3, 0xA9, 0xE2, 0x82, 0xAC, 0xF0, 0x9F, 0x98, 0x80]"
  "utf8_decode_utf16 [0x70, 0xC3, 0xA9, 0xE2, 0x82, 0xAC, 0xF0, 0x9F, 0x98, 0x80]
     = [0x70, 0xE9, 0x20AC, 0xD83D, 0xDE00]"
  by (simp_all add: utf8_encode_utf16_def utf8_decode_utf16_def utf8_of_code_point_def
        is_high_surrogate_def is_low_surrogate_def scalar_of_unit_def utf8_initial_def
        utf8_lead_def utf16_of_code_point_def)

lemma utf8_lone_surrogate:
  "utf8_encode_utf16 [0xD800] = [0xEF, 0xBF, 0xBD]"
  "utf8_decode_utf16 [0xEF, 0xBF, 0xBD] = [0xFFFD]"
  by (simp_all add: utf8_encode_utf16_def utf8_decode_utf16_def utf8_of_code_point_def
        is_high_surrogate_def is_low_surrogate_def scalar_of_unit_def utf8_initial_def
        utf8_lead_def utf16_of_code_point_def)



text \<open>
  Decoding inverts encoding on the strings in which every surrogate has its partner: the
  decoder reads each encoded code point back, and the code points of such a string are
  its code units, with each pair joined.
\<close>

lemma unat_byte: "n < 256 \<Longrightarrow> unat (of_nat n :: 8 word) = n"
  by (simp add: unat_of_nat)

lemma run1:
  assumes "c < 0x80"
  shows "utf8_run utf8_initial (c # bs) = c # utf8_run utf8_initial bs"
  using assms by (simp add: utf8_initial_def utf8_lead_def)

lemma run2:
  assumes "2 \<le> a" "a < 32" "b < 64"
  shows "utf8_run utf8_initial ((0xC0 + a) # (0x80 + b) # bs) = (a * 64 + b) # utf8_run utf8_initial bs"
  using assms by (simp add: utf8_initial_def utf8_lead_def)

lemma run3:
  assumes "a < 16" "b < 64" "d < 64" "a = 0 \<longrightarrow> 32 \<le> b" "a = 13 \<longrightarrow> b < 32"
  shows "utf8_run utf8_initial ((0xE0 + a) # (0x80 + b) # (0x80 + d) # bs)
           = ((a * 64 + b) * 64 + d) # utf8_run utf8_initial bs"
  using assms by (auto simp: utf8_initial_def utf8_lead_def)

lemma run4:
  assumes "a \<le> 4" "b < 64" "d < 64" "e < 64" "a = 0 \<longrightarrow> 16 \<le> b" "a = 4 \<longrightarrow> b < 16"
  shows "utf8_run utf8_initial ((0xF0 + a) # (0x80 + b) # (0x80 + d) # (0x80 + e) # bs)
           = (((a * 64 + b) * 64 + d) * 64 + e) # utf8_run utf8_initial bs"
  using assms by (auto simp: utf8_initial_def utf8_lead_def)

lemma split2: "(c :: nat) div 64 * 64 + c mod 64 = c" by simp

lemma split3: "((c :: nat) div 4096 * 64 + c div 64 mod 64) * 64 + c mod 64 = c"
proof -
  have "c div 4096 = c div 64 div 64" by (simp add: div_mult2_eq)
  then have "c div 4096 * 64 + c div 64 mod 64 = c div 64" by simp
  then show ?thesis by simp
qed

lemma split4:
  "(((c :: nat) div 262144 * 64 + c div 4096 mod 64) * 64 + c div 64 mod 64) * 64 + c mod 64 = c"
proof -
  have "c div 262144 = c div 4096 div 64" by (simp add: div_mult2_eq)
  then have "c div 262144 * 64 + c div 4096 mod 64 = c div 4096" by simp
  then show ?thesis using split3 [of c] by simp
qed

lemma enc1:
  assumes "c < 0x80"
  shows "map unat (utf8_of_code_point c) = [c]"
  using assms by (simp add: utf8_of_code_point_def unat_byte)

lemma enc2:
  assumes "0x80 \<le> c" "c < 0x800"
  shows "map unat (utf8_of_code_point c) = [0xC0 + c div 64, 0x80 + c mod 64]"
proof -
  have a: "c div 64 < 32" using assms by auto
  have 1: "unat (of_nat (0xC0 + c div 64) :: 8 word) = 0xC0 + c div 64"
    by (rule unat_byte) (use a in simp)
  have 2: "unat (of_nat (0x80 + c mod 64) :: 8 word) = 0x80 + c mod 64"
    by (rule unat_byte) simp
  have "utf8_of_code_point c = [of_nat (0xC0 + c div 64), of_nat (0x80 + c mod 64)]"
    unfolding utf8_of_code_point_def using assms by (simp del: of_nat_add of_nat_numeral)
  then show ?thesis by (simp only: list.map 1 2)
qed

lemma enc3:
  assumes "0x800 \<le> c" "c < 0x10000"
  shows "map unat (utf8_of_code_point c) = [0xE0 + c div 4096, 0x80 + c div 64 mod 64, 0x80 + c mod 64]"
proof -
  have a: "c div 4096 < 16" using assms by auto
  have 1: "unat (of_nat (0xE0 + c div 4096) :: 8 word) = 0xE0 + c div 4096"
    by (rule unat_byte) (use a in simp)
  have 2: "unat (of_nat (0x80 + c div 64 mod 64) :: 8 word) = 0x80 + c div 64 mod 64"
    by (rule unat_byte) simp
  have 3: "unat (of_nat (0x80 + c mod 64) :: 8 word) = 0x80 + c mod 64"
    by (rule unat_byte) simp
  have "utf8_of_code_point c
          = [of_nat (0xE0 + c div 4096), of_nat (0x80 + c div 64 mod 64), of_nat (0x80 + c mod 64)]"
    unfolding utf8_of_code_point_def using assms by (simp del: of_nat_add of_nat_numeral)
  then show ?thesis by (simp only: list.map 1 2 3)
qed

lemma enc4:
  assumes "0x10000 \<le> c" "c < 0x110000"
  shows "map unat (utf8_of_code_point c)
           = [0xF0 + c div 262144, 0x80 + c div 4096 mod 64, 0x80 + c div 64 mod 64, 0x80 + c mod 64]"
proof -
  have a: "c div 262144 < 5" using assms by auto
  have 1: "unat (of_nat (0xF0 + c div 262144) :: 8 word) = 0xF0 + c div 262144"
    by (rule unat_byte) (use a in simp)
  have 2: "unat (of_nat (0x80 + c div 4096 mod 64) :: 8 word) = 0x80 + c div 4096 mod 64"
    by (rule unat_byte) simp
  have 3: "unat (of_nat (0x80 + c div 64 mod 64) :: 8 word) = 0x80 + c div 64 mod 64"
    by (rule unat_byte) simp
  have 4: "unat (of_nat (0x80 + c mod 64) :: 8 word) = 0x80 + c mod 64"
    by (rule unat_byte) simp
  have "utf8_of_code_point c
          = [of_nat (0xF0 + c div 262144), of_nat (0x80 + c div 4096 mod 64),
             of_nat (0x80 + c div 64 mod 64), of_nat (0x80 + c mod 64)]"
    unfolding utf8_of_code_point_def using assms by (simp del: of_nat_add of_nat_numeral)
  then show ?thesis by (simp only: list.map 1 2 3 4)
qed

lemma bounds3:
  assumes "0x800 \<le> c" "c < 0x10000" "is_scalar c"
  shows "c div 4096 = 0 \<longrightarrow> 32 \<le> c div 64 mod 64" "c div 4096 = 13 \<longrightarrow> c div 64 mod 64 < 32"
proof -
  have e: "c div 64 = c div 4096 * 64 + c div 64 mod 64"
  proof -
    have "c div 4096 = c div 64 div 64" by (simp add: div_mult2_eq)
    then show ?thesis by simp
  qed
  show "c div 4096 = 0 \<longrightarrow> 32 \<le> c div 64 mod 64"
  proof
    assume z: "c div 4096 = 0"
    from assms(1) have "32 \<le> c div 64" by auto
    with e z show "32 \<le> c div 64 mod 64" by simp
  qed
  show "c div 4096 = 13 \<longrightarrow> c div 64 mod 64 < 32"
  proof
    assume z: "c div 4096 = 13"
    then have "0xD000 \<le> c" "c < 0xE000" by auto
    with assms(3) have "c < 0xD800" by (simp add: is_scalar_def)
    then have "c div 64 < 864" by auto
    with e z show "c div 64 mod 64 < 32" by simp
  qed
qed

lemma bounds4:
  fixes c :: nat
  assumes "0x10000 \<le> c" "c < 0x110000"
  shows "c div 262144 = 0 \<longrightarrow> 16 \<le> c div 4096 mod 64" "c div 262144 = 4 \<longrightarrow> c div 4096 mod 64 < 16"
proof -
  have e: "c div 4096 = c div 262144 * 64 + c div 4096 mod 64"
  proof -
    have "c div 262144 = c div 4096 div 64" by (simp add: div_mult2_eq)
    then show ?thesis by simp
  qed
  show "c div 262144 = 0 \<longrightarrow> 16 \<le> c div 4096 mod 64"
  proof
    assume z: "c div 262144 = 0"
    from assms(1) have "16 \<le> c div 4096" by auto
    with e z show "16 \<le> c div 4096 mod 64" by simp
  qed
  show "c div 262144 = 4 \<longrightarrow> c div 4096 mod 64 < 16"
  proof
    assume z: "c div 262144 = 4"
    from assms(2) have "c div 4096 < 272" by auto
    with e z show "c div 4096 mod 64 < 16" by simp
  qed
qed

lemma decode_encoded_point:
  assumes "is_scalar c"
  shows "utf8_run utf8_initial (map unat (utf8_of_code_point c) @ bs) = c # utf8_run utf8_initial bs"
proof -
  have "c < 0x110000" using assms by (simp add: is_scalar_def)
  then consider "c < 0x80" | "0x80 \<le> c" "c < 0x800" | "0x800 \<le> c" "c < 0x10000"
    | "0x10000 \<le> c" "c < 0x110000"
    by (cases "c < 0x80"; cases "c < 0x800"; cases "c < 0x10000") auto
  then show ?thesis
  proof cases
    case 1
    show ?thesis unfolding enc1 [OF 1] using run1 [OF 1, of bs] by (simp only: append.simps)
  next
    case 2
    have a: "2 \<le> c div 64" "c div 64 < 32" using 2 by auto
    have b: "c mod 64 < 64" by simp
    show ?thesis unfolding enc2 [OF 2] using run2 [OF a b, of bs]
      by (simp only: append.simps split2)
  next
    case 3
    have a: "c div 4096 < 16" using 3 by auto
    have b: "c div 64 mod 64 < 64" "c mod 64 < 64" by simp_all
    show ?thesis unfolding enc3 [OF 3] using run3 [OF a b bounds3 [OF 3 assms], of bs]
      by (simp only: append.simps split3)
  next
    case 4
    have a: "c div 262144 \<le> 4" using 4 by auto
    have b: "c div 4096 mod 64 < 64" "c div 64 mod 64 < 64" "c mod 64 < 64" by simp_all
    show ?thesis unfolding enc4 [OF 4] using run4 [OF a b bounds4 [OF 4], of bs]
      by (simp only: append.simps split4)
  qed
qed

lemma decode_encoded_points:
  "list_all is_scalar cps \<Longrightarrow>
   utf8_run utf8_initial (map unat (concat (map utf8_of_code_point cps))) = cps"
proof (induction cps)
  case Nil
  then show ?case by (simp add: utf8_initial_def)
next
  case (Cons c cps)
  then show ?case using decode_encoded_point [of c] by simp
qed

lemma scalar_of_unit_scalar: "u < 65536 \<Longrightarrow> is_scalar (scalar_of_unit u)"
  by (auto simp: scalar_of_unit_def is_scalar_def is_high_surrogate_def is_low_surrogate_def)

lemma code_points_scalar:
  "list_all (\<lambda>u. u < 65536) us \<Longrightarrow> list_all is_scalar (code_points us)"
proof (induction us rule: code_points.induct)
  case 1
  then show ?case by simp
next
  case (2 u)
  then show ?case by (simp add: scalar_of_unit_scalar)
next
  case (3 u v us)
  show ?case
  proof (cases "is_high_surrogate u \<and> is_low_surrogate v")
    case True
    then have "is_scalar (0x10000 + (u - 0xD800) * 1024 + (v - 0xDC00))"
      by (auto simp: is_scalar_def is_high_surrogate_def is_low_surrogate_def)
    moreover have "list_all is_scalar (code_points us)"
      using "3.IH"(1) [OF True] "3.prems" by simp
    ultimately show ?thesis using True by simp
  next
    case False
    have "list_all is_scalar (code_points (v # us))"
      using "3.IH"(2) [OF False] "3.prems" by simp
    moreover have "is_scalar (scalar_of_unit u)"
      using "3.prems" by (simp add: scalar_of_unit_scalar)
    ultimately show ?thesis by (simp add: False)
  qed
qed

lemma surrogate_pair:
  assumes "is_high_surrogate u" and "is_low_surrogate v"
  shows "utf16_of_code_point (0x10000 + (u - 0xD800) * 1024 + (v - 0xDC00)) = [of_nat u, of_nat v]"
proof -
  let ?cp = "0x10000 + (u - 0xD800) * 1024 + (v - 0xDC00)"
  have v: "v - 0xDC00 < 1024" using assms(2) by (auto simp: is_low_surrogate_def)
  have e: "?cp - 0x10000 = (u - 0xD800) * 1024 + (v - 0xDC00)" by simp
  have d: "(?cp - 0x10000) div 1024 = u - 0xD800" unfolding e using v by simp
  have m: "(?cp - 0x10000) mod 1024 = v - 0xDC00" unfolding e using v by simp
  have h: "0xD800 + (?cp - 0x10000) div 1024 = u"
    unfolding d using assms(1) by (simp add: is_high_surrogate_def)
  have l: "0xDC00 + (?cp - 0x10000) mod 1024 = v"
    unfolding m using assms(2) by (simp add: is_low_surrogate_def)
  have n: "\<not> ?cp < 0x10000" by simp
  show ?thesis unfolding utf16_of_code_point_def by (simp only: n if_False h l)
qed

lemma utf16_of_code_points:
  "list_all (\<lambda>u. u < 65536) us \<Longrightarrow> well_formed_utf16 us \<Longrightarrow>
   concat (map utf16_of_code_point (code_points us)) = map of_nat us"
proof (induction us rule: code_points.induct)
  case 1
  then show ?case by simp
next
  case (2 u)
  then show ?case by (simp add: scalar_of_unit_def utf16_of_code_point_def)
next
  case (3 u v us)
  show ?case
  proof (cases "is_high_surrogate u")
    case True
    with "3.prems" have low: "is_low_surrogate v" and wf: "well_formed_utf16 us" by simp_all
    have rest: "concat (map utf16_of_code_point (code_points us)) = map of_nat us"
      using "3.IH"(1) [OF conjI [OF True low]] "3.prems"(1) wf by simp
    have "utf16_of_code_point (0x10000 + (u - 0xD800) * 1024 + (v - 0xDC00)) = [of_nat u, of_nat v]"
      using True low by (rule surrogate_pair)
    with True low rest show ?thesis by simp
  next
    case False
    with "3.prems" have nl: "\<not> is_low_surrogate u" and wf: "well_formed_utf16 (v # us)" by simp_all
    have rest: "concat (map utf16_of_code_point (code_points (v # us))) = map of_nat (v # us)"
      using "3.IH"(2) "3.prems"(1) wf False by simp
    have "utf16_of_code_point (scalar_of_unit u) = [of_nat u]"
      using False nl "3.prems"(1) by (simp add: scalar_of_unit_def utf16_of_code_point_def)
    with False rest show ?thesis by simp
  qed
qed

lemma utf8_roundtrip_well_formed:
  assumes "well_formed_utf16 (map unat s)"
  shows "utf8_decode_utf16 (utf8_encode_utf16 s) = s"
proof -
  have b: "list_all (\<lambda>u. u < 65536) (map unat s)"
    using unsigned_less [where 'a = nat and 'b = 16] by (simp add: list_all_iff)
  have "utf8_run utf8_initial (map unat (utf8_encode_utf16 s)) = code_points (map unat s)"
    unfolding utf8_encode_utf16_def by (rule decode_encoded_points [OF code_points_scalar [OF b]])
  then have "utf8_decode_utf16 (utf8_encode_utf16 s)
               = concat (map utf16_of_code_point (code_points (map unat s)))"
    by (simp add: utf8_decode_utf16_def)
  also have "\<dots> = map of_nat (map unat s)" by (rule utf16_of_code_points [OF b assms])
  also have "\<dots> = s" by (simp add: comp_def)
  finally show ?thesis .
qed

text \<open>With these encodings, every such plaintext comes back from its token.\<close>

lemma node_crypto_roundtrip:
  assumes "masterKey \<noteq> []" and "length salt = SALT_LENGTH" and "length iv = IV_LENGTH"
    and "well_formed_utf16 (map unat plaintext)"
  shows "case encryptPassword node_crypto (Some masterKey) salt iv plaintext of
           Inl e \<Rightarrow> False
         | Inr token \<Rightarrow> decryptPassword node_crypto (Some masterKey) token = Inr plaintext"
  using roundtrip [OF assms(1,2,3) node_crypto_contract, of plaintext]
    utf8_roundtrip_well_formed [OF assms(4)]
  by (simp add: node_crypto_fields(2,4,5))

text \<open>
  Claim C3, amended. For every plaintext and every master key that is set, with a salt of
  \<open>SALT_LENGTH\<close> and an IV of \<open>IV_LENGTH\<close> random bytes, and a library that keeps its
  contract (PBKDF2 returns the key length asked for; the cipher returns a tag of
  \<open>TAG_LENGTH\<close> bytes and deciphers what it has enciphered; the hex and base64 decoders
  invert the encoders), \<open>encryptPassword\<close> returns the base64 encoding of salt, IV, tag
  and ciphertext in this order, and \<open>decryptPassword\<close> of that token under the same master
  key returns the UTF-8 decoding of the UTF-8 encoding of the plaintext. That is the
  plaintext itself if and only if the plaintext survives UTF-8, as every string does in
  which each surrogate has its partner; a surrogate without a partner comes back as
  U+FFFD, and no error is thrown.
\<close>

theorem encrypt_decrypt_roundtrip:
  assumes "masterKey \<noteq> []"
    and "length salt = SALT_LENGTH" and "length iv = IV_LENGTH"
    and "\<forall>password s iterations keylen digest.
                length (pbkdf2Sync lib password s iterations keylen digest) = keylen"
    and "\<forall>k v data. length k = KEY_LENGTH \<and> length v = IV_LENGTH \<longrightarrow>
                (case cipher_gcm lib ALGORITHM k v data of
                   None \<Rightarrow> False
                 | Some (c, tag) \<Rightarrow> length tag = TAG_LENGTH
                                    \<and> decipher_gcm lib ALGORITHM k v tag c = Some data)"
    and "\<forall>b. hex_decode lib (hex_encode lib b) = b"
    and "\<forall>b. base64_decode lib (base64_encode lib b) = b"
  shows "case cipher_gcm lib ALGORITHM (deriveKey lib salt masterKey) iv (utf8_encode lib plaintext) of
           None \<Rightarrow> False
         | Some (data, tag) \<Rightarrow>
             encryptPassword lib (Some masterKey) salt iv plaintext
               = Inr (base64_encode lib (salt @ iv @ tag @ data))
             \<and> decryptPassword lib (Some masterKey) (base64_encode lib (salt @ iv @ tag @ data))
               = Inr (utf8_decode lib (utf8_encode lib plaintext))
             \<and> (decryptPassword lib (Some masterKey) (base64_encode lib (salt @ iv @ tag @ data))
                  = Inr plaintext)
               = (utf8_decode lib (utf8_encode lib plaintext) = plaintext)"
  using roundtrip [OF assms, of plaintext] by (auto split: option.splits)

theorem encrypt_decrypt_roundtrip_witness:
  "encryptPassword node_crypto (Some test_key) (replicate 64 0) (replicate 16 0)
       [0x70, 0xE9, 0x20AC, 0xD83D, 0xDE00]
     = Inr (base64_encode node_crypto
              (replicate 64 0 @ replicate 16 0
               @ [0, 1, 2, 3, 4, 5, 6, 7, 8, 9, 10, 11, 12, 13, 14, 15]
               @ [0x70, 0xC3, 0xA9, 0xE2, 0x82, 0xAC, 0xF0, 0x9F, 0x98, 0x80]))
   \<and> decryptPassword node_crypto (Some test_key)
       (base64_encode node_crypto
          (replicate 64 0 @ replicate 16 0
           @ [0, 1, 2, 3, 4, 5, 6, 7, 8, 9, 10, 11, 12, 13, 14, 15]
           @ [0x70, 0xC3, 0xA9, 0xE2, 0x82, 0xAC, 0xF0, 0x9F, 0x98, 0x80]))
     = Inr [0x70, 0xE9, 0x20AC, 0xD83D, 0xDE00]"
proof -
  have k: "test_key \<noteq> []" by (simp add: test_key_def)
  have s: "length (replicate 64 (0 :: 8 word)) = SALT_LENGTH" by (simp add: SALT_LENGTH_def)
  have i: "length (replicate 16 (0 :: 8 word)) = IV_LENGTH" by (simp add: IV_LENGTH_def)
  from encrypt_decrypt_roundtrip [OF k s i node_crypto_contract,
      of "[0x70, 0xE9, 0x20AC, 0xD83D, 0xDE00]"]
  show ?thesis
    by (simp add: node_crypto_fields(2,4,5) node_key utf8_sample)
qed

text \<open>
  The claim as stated fails on a plaintext that UTF-8 cannot represent: the string of the
  one code unit U+D800 is encrypted without an error, and its token decrypts to the
  string U+FFFD.
\<close>

theorem encrypt_decrypt_roundtrip_counterexample:
  "encryptPassword node_crypto (Some test_key) (replicate 64 0) (replicate 16 0) [0xD800]
     = Inr (base64_encode node_crypto
              (replicate 64 0 @ replicate 16 0
               @ [0, 1, 2, 3, 4, 5, 6, 7, 8, 9, 10, 11, 12, 13, 14, 15] @ [0xEF, 0xBF, 0xBD]))
   \<and> decryptPassword node_crypto (Some test_key)
       (base64_encode node_crypto
          (replicate 64 0 @ replicate 16 0
           @ [0, 1, 2, 3, 4, 5, 6, 7, 8, 9, 10, 11, 12, 13, 14, 15] @ [0xEF, 0xBF, 0xBD]))
     = Inr [0xFFFD]
   \<and> [0xFFFD] \<noteq> [0xD800 :: 16 word]"
proof -
  have k: "test_key \<noteq> []" by (simp add: test_key_def)
  have s: "length (replicate 64 (0 :: 8 word)) = SALT_LENGTH" by (simp add: SALT_LENGTH_def)
  have i: "length (replicate 16 (0 :: 8 word)) = IV_LENGTH" by (simp add: IV_LENGTH_def)
  from roundtrip [OF k s i node_crypto_contract, of "[0xD800]"]
  show ?thesis
    by (simp add: node_crypto_fields(2,4,5) node_key utf8_lone_surrogate)
qed








subsection \<open>The ledger during one call of clients.deploy\<close>

lemma row_history_append [simp]:
  "row_history d (xs @ ys) = row_history d xs @ row_history d ys"
  by (simp add: row_history_def)

lemma row_history_Nil [simp]: "row_history d [] = []"
  by (simp add: row_history_def)

lemma row_history_write [simp]:
  "row_history d (LedgerWrite r # evs) = (if dep_id r = d then [r] else []) @ row_history d evs"
  by (simp add: row_history_def)

lemma row_history_after_create: "list_all after_create evs \<Longrightarrow> row_history d evs = []"
  by (induction evs) (auto simp: row_history_def after_create_def split: event.splits)

lemma row_history_project [simp]: "row_history d (CreateProject n # evs) = row_history d evs"
  by (simp add: row_history_def)

lemma filter_id_map_upd:
  assumes "\<And>r. dep_id (upd r) = dep_id r"
  shows "filter (\<lambda>r. dep_id r = d) (map (\<lambda>r. if dep_id r = did then upd r else r) xs)
           = (if d = did then map upd (filter (\<lambda>r. dep_id r = did) xs)
              else filter (\<lambda>r. dep_id r = d) xs)"
  using assms by (induction xs) auto

lemma filter_other_map_upd:
  assumes "\<And>r. dep_id (upd r) = dep_id r"
  shows "filter (\<lambda>r. dep_id r \<noteq> did) (map (\<lambda>r. if dep_id r = did then upd r else r) xs)
           = filter (\<lambda>r. dep_id r \<noteq> did) xs"
  using assms by (induction xs) auto

lemma rows_of_updateDeployment:
  assumes "\<And>r. dep_id (upd r) = dep_id r"
  shows "rows_of d (updateDeployment did upd w)
           = (if d = did then map upd (rows_of did w) else rows_of d w)"
  using filter_id_map_upd [of upd d did "tbl_deployments w", OF assms]
  by (simp add: rows_of_def updateDeployment_def Let_def)

lemma others_updateDeployment:
  assumes "\<And>r. dep_id (upd r) = dep_id r"
  shows "filter (\<lambda>r. dep_id r \<noteq> did) (tbl_deployments (updateDeployment did upd w))
           = filter (\<lambda>r. dep_id r \<noteq> did) (tbl_deployments w)"
  using filter_other_map_upd [of upd did "tbl_deployments w", OF assms]
  by (simp add: updateDeployment_def Let_def)

lemma trace_updateDeployment:
  "trace (updateDeployment did upd w) = trace w @ map (\<lambda>r. LedgerWrite (upd r)) (rows_of did w)"
  by (simp add: updateDeployment_def Let_def rows_of_def)

lemma updateDeployment_fields [simp]:
  "tbl_clients (updateDeployment did upd w) = tbl_clients w"
  "clock (updateDeployment did upd w) = clock w"
  by (simp_all add: updateDeployment_def Let_def)

lemma updateClient_fields [simp]:
  "tbl_deployments (updateClient cid upd w) = tbl_deployments w"
  "trace (updateClient cid upd w) = trace w"
  "clock (updateClient cid upd w) = clock w"
  "rows_of d (updateClient cid upd w) = rows_of d w"
  by (simp_all add: updateClient_def rows_of_def)

lemma filter_client_map_upd:
  assumes "\<And>c. cl_id (upd c) = cl_id c"
  shows "filter (\<lambda>c. cl_id c = cid) (map (\<lambda>c. if cl_id c = cid then upd c else c) xs)
           = map upd (filter (\<lambda>c. cl_id c = cid) xs)"
  using assms by (induction xs) auto

lemma clients_of_updateClient:
  assumes "\<And>c. cl_id (upd c) = cl_id c"
  shows "clients_of cid (updateClient cid upd w) = map upd (clients_of cid w)"
  using filter_client_map_upd [of upd cid "tbl_clients w", OF assms]
  by (simp add: clients_of_def updateClient_def)

lemma logAdminAction_fields [simp]:
  "tbl_deployments (logAdminAction a w) = tbl_deployments w"
  "tbl_clients (logAdminAction a w) = tbl_clients w"
  "trace (logAdminAction a w) = trace w"
  "rows_of d (logAdminAction a w) = rows_of d w"
  by (simp_all add: logAdminAction_def rows_of_def)

lemma frame_rows: "frame P w w' \<Longrightarrow> rows_of d w' = rows_of d w"
  by (simp add: frame_def rows_of_def)

lemma deployClient_try_success:
  "deployClient_try d config w = (Inr result, w') \<Longrightarrow> dr_success result \<and> dr_error result = None"
  unfolding deployClient_try_def
  by (auto simp: Let_def split: sum.splits prod.splits if_splits)

lemma deployClient_result:
  assumes "deployClient d config w = (result, w')"
  shows "(dr_success result \<and> dr_error result = None)
       \<or> (\<exists>e. deployClient_try d config w = (Inl e, snd (deployClient_try d config w))
              \<and> \<not> dr_success result \<and> dr_error result = Some (message e))"
  using assms deployClient_try_success [of d config w]
  by (auto simp: deployClient_def split: prod.splits sum.splits)


lemma createDeployment_fresh:
  assumes "did \<notin> dep_id ` set (tbl_deployments w)"
  shows "createDeployment did cid Pending
           (if truthy (cl_railwayProjectId (gc_client client)) then Redeploy else Initial) w
         = Inr ((emit (LedgerWrite (pending_row did cid client w)) w)
                  \<lparr>tbl_deployments := tbl_deployments w @ [pending_row did cid client w]\<rparr>)"
  using assms by (simp add: createDeployment_def pending_row_def Let_def)

lemma fresh_filter:
  "did \<notin> dep_id ` set xs \<Longrightarrow> filter (\<lambda>r. dep_id r = did) xs = []"
  "did \<notin> dep_id ` set xs \<Longrightarrow> filter (\<lambda>r. dep_id r \<noteq> did) xs = xs"
  by (induction xs) auto

lemma attempt_world_facts:
  assumes fresh: "did \<notin> dep_id ` set (tbl_deployments w)"
  shows "trace (attempt_world did cid client w)
           = trace w @ [LedgerWrite (pending_row did cid client w),
                        LedgerWrite ((pending_row did cid client w)\<lparr>dep_status := Building\<rparr>)]"
    and "rows_of did (attempt_world did cid client w)
           = [(pending_row did cid client w)\<lparr>dep_status := Building\<rparr>]"
    and "filter (\<lambda>r. dep_id r \<noteq> did) (tbl_deployments (attempt_world did cid client w))
           = tbl_deployments w"
proof -
  let ?p = "pending_row did cid client w"
  let ?w0 = "(emit (LedgerWrite ?p) w)\<lparr>tbl_deployments := tbl_deployments w @ [?p]\<rparr>"
  let ?w1 = "updateClient cid (\<lambda>c. c\<lparr>cl_status := ClientDeploying\<rparr>) ?w0"
  have id: "dep_id ?p = did" by (simp add: pending_row_def)
  have r0: "rows_of did ?w0 = [?p]"
    using fresh by (simp add: rows_of_def fresh_filter id emit_def)
  have t0: "trace ?w0 = trace w @ [LedgerWrite ?p]" by (simp add: emit_def)
  have o0: "filter (\<lambda>r. dep_id r \<noteq> did) (tbl_deployments ?w0) = tbl_deployments w"
    using fresh by (simp add: fresh_filter id emit_def)
  show "trace (attempt_world did cid client w)
           = trace w @ [LedgerWrite ?p, LedgerWrite (?p\<lparr>dep_status := Building\<rparr>)]"
    unfolding attempt_world_def by (simp add: trace_updateDeployment r0 t0)
  show "rows_of did (attempt_world did cid client w) = [?p\<lparr>dep_status := Building\<rparr>]"
    unfolding attempt_world_def by (simp add: rows_of_updateDeployment r0)
  show "filter (\<lambda>r. dep_id r \<noteq> did) (tbl_deployments (attempt_world did cid client w))
           = tbl_deployments w"
    unfolding attempt_world_def using fresh
    by (simp add: others_updateDeployment emit_def id fresh_filter)
qed

text \<open>The \<open>catch\<close> block of \<open>clients.deploy\<close>.\<close>

lemma catch_facts:
  fixes m :: string and cid :: string
  assumes "rows_of did w3 = [r]"
  defines "wc \<equiv> updateDeployment did
                  (\<lambda>r. r\<lparr> dep_status := Failed, dep_errorMessage := Some m,
                          dep_completedAt := Some (clock w3) \<rparr>)
                  (updateClient cid (\<lambda>c. c\<lparr>cl_status := ClientFailed\<rparr>) w3)"
  shows "trace wc = trace w3 @ [LedgerWrite (r\<lparr> dep_status := Failed, dep_errorMessage := Some m,
                                              dep_completedAt := Some (clock w3) \<rparr>)]"
    and "rows_of did wc = [r\<lparr> dep_status := Failed, dep_errorMessage := Some m,
                              dep_completedAt := Some (clock w3) \<rparr>]"
    and "filter (\<lambda>r. dep_id r \<noteq> did) (tbl_deployments wc)
           = filter (\<lambda>r. dep_id r \<noteq> did) (tbl_deployments w3)"
    and "\<forall>c \<in> set (clients_of cid wc). cl_status c = ClientFailed"
  unfolding wc_def
  by (simp_all add: trace_updateDeployment rows_of_updateDeployment others_updateDeployment assms(1)
        clients_of_def clients_of_updateClient [unfolded clients_of_def])


lemma frame_after_create_facts:
  assumes "frame after_create (emit (CreateProject n) w2) w3"
  shows "\<exists>evs. trace w3 = trace w2 @ evs \<and> row_history did evs = []"
    and "rows_of did w3 = rows_of did w2"
    and "tbl_deployments w3 = tbl_deployments w2"
proof -
  from frame_trace [OF assms]
  have "trace w3 = trace w2 @ (CreateProject n # new_events (emit (CreateProject n) w2) w3)"
    by (simp add: emit_def)
  moreover have "row_history did (CreateProject n # new_events (emit (CreateProject n) w2) w3) = []"
    using assms by (simp add: frame_def row_history_after_create)
  ultimately show "\<exists>evs. trace w3 = trace w2 @ evs \<and> row_history did evs = []" by blast
  show "rows_of did w3 = rows_of did w2"
    using frame_rows [OF assms] by (simp add: rows_of_def emit_def)
  show "tbl_deployments w3 = tbl_deployments w2"
    using assms by (simp add: frame_def emit_def)
qed

lemma try_token:
  "createRailwayApiClient (env_platform env) (RAILWAY_API_TOKEN env) = Inl e \<Longrightarrow>
   clients_deploy_try env did cid client w0
     = (Inl e, updateDeployment did (\<lambda>r. r\<lparr>dep_status := Building\<rparr>)
                 (updateClient cid (\<lambda>c. c\<lparr>cl_status := ClientDeploying\<rparr>) w0))"
  by (simp add: clients_deploy_try_def Let_def)

lemma try_lendpro:
  "createRailwayApiClient (env_platform env) (RAILWAY_API_TOKEN env) = Inr rc \<Longrightarrow>
   gc_lendpro client = None \<Longrightarrow>
   clients_deploy_try env did cid client w0
     = (Inl (TypeError (''Cannot read properties of undefined (reading '' @ [CHR 0x27]
                     @ ''password'' @ [CHR 0x27] @ '')'')),
        updateDeployment did (\<lambda>r. r\<lparr>dep_status := Building\<rparr>)
                 (updateClient cid (\<lambda>c. c\<lparr>cl_status := ClientDeploying\<rparr>) w0))"
  by (simp add: clients_deploy_try_def Let_def)

lemma try_decrypt:
  "createRailwayApiClient (env_platform env) (RAILWAY_API_TOKEN env) = Inr rc \<Longrightarrow>
   gc_lendpro client = Some lendpro \<Longrightarrow>
   decryptPassword (env_crypto env) (ENCRYPTION_KEY env) (lp_password (lr_config lendpro)) = Inl e \<Longrightarrow>
   clients_deploy_try env did cid client w0
     = (Inl e, updateDeployment did (\<lambda>r. r\<lparr>dep_status := Building\<rparr>)
                 (updateClient cid (\<lambda>c. c\<lparr>cl_status := ClientDeploying\<rparr>) w0))"
  by (simp add: clients_deploy_try_def Let_def)

lemma try_run:
  "createRailwayApiClient (env_platform env) (RAILWAY_API_TOKEN env) = Inr rc \<Longrightarrow>
   gc_lendpro client = Some lendpro \<Longrightarrow>
   decryptPassword (env_crypto env) (ENCRYPTION_KEY env) (lp_password (lr_config lendpro)) = Inr password \<Longrightarrow>
   deployClient (new_ClientDeployer rc None None) (clientConfig_of client lendpro password)
     (updateDeployment did (\<lambda>r. r\<lparr>dep_status := Building\<rparr>)
        (updateClient cid (\<lambda>c. c\<lparr>cl_status := ClientDeploying\<rparr>) w0)) = (result, w3) \<Longrightarrow>
   clients_deploy_try env did cid client w0 =
           (if dr_success result then
               (Inr result,
                logAdminAction
                  \<lparr> al_action = ''deploy_client'', al_resourceType = ''deployment'',
                    al_resourceId = did, al_details = ResultDetails result \<rparr>
                  (updateDeployment did
                     (\<lambda>r. r\<lparr>dep_status := Success, dep_completedAt := Some (clock w3)\<rparr>)
                     (updateClient cid
                        (\<lambda>c. c\<lparr> cl_status := ClientActive,
                                cl_railwayProjectId :=
                                  set_if_defined (or_undefined (dr_projectId result)) (cl_railwayProjectId c),
                                cl_railwayProjectUrl :=
                                  set_if_defined (or_undefined (dr_projectUrl result)) (cl_railwayProjectUrl c),
                                cl_serviceUrl :=
                                  set_if_defined (or_undefined (dr_serviceUrl result)) (cl_serviceUrl c),
                                cl_lastDeployedAt := Some (clock w3) \<rparr>) w3)))
            else
               (Inl (Error (or_else (dr_error result) ''Deployment failed'')),
                updateDeployment did
                  (\<lambda>r. r\<lparr> dep_status := Failed,
                          dep_errorMessage := set_if_defined (dr_error result) (dep_errorMessage r),
                          dep_completedAt := Some (clock w3) \<rparr>)
                  (updateClient cid (\<lambda>c. c\<lparr>cl_status := ClientFailed\<rparr>) w3)))"
  by (simp add: clients_deploy_try_def Let_def)

text \<open>
  What one call of \<open>clients.deploy\<close> for an existing client and a fresh id does to the
  ledger: the other rows stay as they are, and the new row is written three or four
  times: \<open>pending\<close>, \<open>building\<close>, then \<open>success\<close> with a returned result, or \<open>failed\<close>
  (once, or twice with the message of the thrown error last) with a thrown error.
\<close>

lemma clients_deploy_outcome:
  assumes client: "getClient cid w = Some client"
    and fresh: "did \<notin> dep_id ` set (tbl_deployments w)"
  defines "p \<equiv> pending_row did cid client w"
  defines "b \<equiv> (pending_row did cid client w)\<lparr>dep_status := Building\<rparr>"
  shows "\<exists>evs. trace (snd (clients_deploy env did cid w)) = trace w @ evs
     \<and> filter (\<lambda>r. dep_id r \<noteq> did) (tbl_deployments (snd (clients_deploy env did cid w)))
         = tbl_deployments w
     \<and> ((\<exists>result t. fst (clients_deploy env did cid w) = Inr result \<and> dr_success result
            \<and> row_history did evs = [p, b, b\<lparr>dep_status := Success, dep_completedAt := Some t\<rparr>]
            \<and> rows_of did (snd (clients_deploy env did cid w))
                = [b\<lparr>dep_status := Success, dep_completedAt := Some t\<rparr>])
        \<or> (\<exists>error t. fst (clients_deploy env did cid w) = Inl error
            \<and> row_history did evs
                = [p, b, b\<lparr>dep_status := Failed, dep_errorMessage := Some (message error),
                           dep_completedAt := Some t\<rparr>]
            \<and> rows_of did (snd (clients_deploy env did cid w))
                = [b\<lparr>dep_status := Failed, dep_errorMessage := Some (message error),
                     dep_completedAt := Some t\<rparr>]
            \<and> (\<forall>c \<in> set (clients_of cid (snd (clients_deploy env did cid w))). cl_status c = ClientFailed))
        \<or> (\<exists>m0 t0 m t. fst (clients_deploy env did cid w) = Inl (Error m)
            \<and> row_history did evs
                = [p, b, b\<lparr>dep_status := Failed, dep_errorMessage := Some m0, dep_completedAt := Some t0\<rparr>,
                   b\<lparr>dep_status := Failed, dep_errorMessage := Some m, dep_completedAt := Some t\<rparr>]
            \<and> rows_of did (snd (clients_deploy env did cid w))
                = [b\<lparr>dep_status := Failed, dep_errorMessage := Some m, dep_completedAt := Some t\<rparr>]
            \<and> (\<forall>c \<in> set (clients_of cid (snd (clients_deploy env did cid w))). cl_status c = ClientFailed)))"
proof -
  let ?w0 = "(emit (LedgerWrite p) w)\<lparr>tbl_deployments := tbl_deployments w @ [p]\<rparr>"
  let ?w2 = "attempt_world did cid client w"
  let ?catch = "\<lambda>error w'. updateDeployment did
                  (\<lambda>r. r\<lparr> dep_status := Failed, dep_errorMessage := Some (message error),
                          dep_completedAt := Some (clock w') \<rparr>)
                  (updateClient cid (\<lambda>c. c\<lparr>cl_status := ClientFailed\<rparr>) w')"
  note aw = attempt_world_facts [OF fresh, of cid client, folded p_def b_def]
  have unfold: "clients_deploy env did cid w =
     (case clients_deploy_try env did cid client ?w0 of
        (Inr result, w') \<Rightarrow> (Inr result, w')
      | (Inl error, w') \<Rightarrow> (Inl error, ?catch error w'))"
    by (simp add: clients_deploy_def client createDeployment_fresh [OF fresh] Let_def p_def
          split: prod.splits sum.splits)
  have hp: "row_history did [LedgerWrite p, LedgerWrite b] = [p, b]"
    by (simp add: p_def b_def pending_row_def)
  consider (early) e where "clients_deploy_try env did cid client ?w0 = (Inl e, ?w2)"
    | (run) rc lendpro password result w3 where
        "deployClient (new_ClientDeployer rc None None) (clientConfig_of client lendpro password) ?w2
           = (result, w3)"
        "clients_deploy_try env did cid client ?w0 =
           (if dr_success result then
               (Inr result,
                logAdminAction
                  \<lparr> al_action = ''deploy_client'', al_resourceType = ''deployment'',
                    al_resourceId = did, al_details = ResultDetails result \<rparr>
                  (updateDeployment did
                     (\<lambda>r. r\<lparr>dep_status := Success, dep_completedAt := Some (clock w3)\<rparr>)
                     (updateClient cid
                        (\<lambda>c. c\<lparr> cl_status := ClientActive,
                                cl_railwayProjectId :=
                                  set_if_defined (or_undefined (dr_projectId result)) (cl_railwayProjectId c),
                                cl_railwayProjectUrl :=
                                  set_if_defined (or_undefined (dr_projectUrl result)) (cl_railwayProjectUrl c),
                                cl_serviceUrl :=
                                  set_if_defined (or_undefined (dr_serviceUrl result)) (cl_serviceUrl c),
                                cl_lastDeployedAt := Some (clock w3) \<rparr>) w3)))
            else
               (Inl (Error (or_else (dr_error result) ''Deployment failed'')),
                updateDeployment did
                  (\<lambda>r. r\<lparr> dep_status := Failed,
                          dep_errorMessage := set_if_defined (dr_error result) (dep_errorMessage r),
                          dep_completedAt := Some (clock w3) \<rparr>)
                  (updateClient cid (\<lambda>c. c\<lparr>cl_status := ClientFailed\<rparr>) w3)))"
  proof -
    have w2: "?w2 = updateDeployment did (\<lambda>r. r\<lparr>dep_status := Building\<rparr>)
                 (updateClient cid (\<lambda>c. c\<lparr>cl_status := ClientDeploying\<rparr>) ?w0)"
      by (simp add: attempt_world_def p_def)
    show ?thesis
    proof (cases "createRailwayApiClient (env_platform env) (RAILWAY_API_TOKEN env)")
      case (Inl e)
      from try_token [OF Inl] show ?thesis using early w2 by metis
    next
      case (Inr rc)
      show ?thesis
      proof (cases "gc_lendpro client")
        case None
        from try_lendpro [OF Inr None] show ?thesis using early w2 by metis
      next
        case (Some lendpro)
        show ?thesis
        proof (cases "decryptPassword (env_crypto env) (ENCRYPTION_KEY env)
                        (lp_password (lr_config lendpro))")
          case (Inl e)
          from try_decrypt [OF Inr Some Inl] show ?thesis using early w2 by metis
        next
          case pw: (Inr password)
          obtain result w3 where d: "deployClient (new_ClientDeployer rc None None)
              (clientConfig_of client lendpro password) ?w2 = (result, w3)"
            by (cases "deployClient (new_ClientDeployer rc None None)
              (clientConfig_of client lendpro password) ?w2") auto
          from try_run [OF Inr Some pw d [unfolded w2]] d show ?thesis
            by (rule run [rotated])
        qed
      qed
    qed
  qed
  then show ?thesis
  proof cases
    case (early e)
    note cf = catch_facts [where cid = cid and m = "message e", OF aw(2)]
    have r: "clients_deploy env did cid w = (Inl e, ?catch e ?w2)"
      by (simp add: unfold early)
    let ?f = "b\<lparr> dep_status := Failed, dep_errorMessage := Some (message e),
                   dep_completedAt := Some (clock ?w2) \<rparr>"
    have "trace (snd (clients_deploy env did cid w))
            = trace w @ [LedgerWrite p, LedgerWrite b, LedgerWrite ?f]"
      by (simp add: r cf(1) aw(1))
    moreover have "row_history did [LedgerWrite p, LedgerWrite b, LedgerWrite ?f] = [p, b, ?f]"
      by (simp add: p_def b_def pending_row_def)
    moreover have "filter (\<lambda>r. dep_id r \<noteq> did) (tbl_deployments (snd (clients_deploy env did cid w)))
         = tbl_deployments w"
      by (simp add: r cf(3) aw(3))
    moreover have "fst (clients_deploy env did cid w) = Inl e"
      by (simp add: r)
    moreover have "rows_of did (snd (clients_deploy env did cid w)) = [?f]"
      by (simp add: r cf(2))
    moreover have "\<forall>c \<in> set (clients_of cid (snd (clients_deploy env did cid w))). cl_status c = ClientFailed"
      using cf(4) by (simp add: r)
    ultimately show ?thesis by blast
  next
    case (run rc lendpro password result w3)
    have fr: "frame after_create
        (emit (CreateProject (''lendpro-'' @ replace_whitespace_runs ''-''
                 (toLowerCase (cfg_name (clientConfig_of client lendpro password))))) ?w2) w3"
      using deployClient_frame [of "clientConfig_of client lendpro password" ?w2
          "new_ClientDeployer rc None None"] run(1) by simp
    from frame_after_create_facts(1) [OF fr, of did]
    obtain evs3 where t3: "trace w3 = trace ?w2 @ evs3" and h3: "row_history did evs3 = []"
      by blast
    have r3: "rows_of did w3 = [b]"
      using frame_after_create_facts(2) [OF fr, of did] by (simp add: aw(2))
    have d3: "tbl_deployments w3 = tbl_deployments ?w2"
      by (rule frame_after_create_facts(3) [OF fr])
    show ?thesis
    proof (cases "dr_success result")
      case True
      let ?s = "b\<lparr>dep_status := Success, dep_completedAt := Some (clock w3)\<rparr>"
      have r: "clients_deploy env did cid w =
          (Inr result,
                logAdminAction
                  \<lparr> al_action = ''deploy_client'', al_resourceType = ''deployment'',
                    al_resourceId = did, al_details = ResultDetails result \<rparr>
                  (updateDeployment did
                     (\<lambda>r. r\<lparr>dep_status := Success, dep_completedAt := Some (clock w3)\<rparr>)
                     (updateClient cid
                        (\<lambda>c. c\<lparr> cl_status := ClientActive,
                                cl_railwayProjectId :=
                                  set_if_defined (or_undefined (dr_projectId result)) (cl_railwayProjectId c),
                                cl_railwayProjectUrl :=
                                  set_if_defined (or_undefined (dr_projectUrl result)) (cl_railwayProjectUrl c),
                                cl_serviceUrl :=
                                  set_if_defined (or_undefined (dr_serviceUrl result)) (cl_serviceUrl c),
                                cl_lastDeployedAt := Some (clock w3) \<rparr>) w3)))"
        by (simp add: unfold run(2) True)
      have "trace (snd (clients_deploy env did cid w))
              = trace w @ ([LedgerWrite p, LedgerWrite b] @ evs3 @ [LedgerWrite ?s])"
        by (simp add: r trace_updateDeployment r3 t3 aw(1))
      moreover have "row_history did ([LedgerWrite p, LedgerWrite b] @ evs3 @ [LedgerWrite ?s]) = [p, b, ?s]"
        using h3 by (simp add: p_def b_def pending_row_def)
      moreover have "filter (\<lambda>r. dep_id r \<noteq> did) (tbl_deployments (snd (clients_deploy env did cid w)))
         = tbl_deployments w"
        by (simp add: r others_updateDeployment d3 aw(3))
      moreover have "rows_of did (snd (clients_deploy env did cid w)) = [?s]"
        by (simp add: r rows_of_updateDeployment r3)
      moreover have "fst (clients_deploy env did cid w) = Inr result" by (simp add: r)
      ultimately show ?thesis using True by blast
    next
      case False
      from deployClient_result [OF run(1)] False
      obtain e0 where e0: "dr_error result = Some (message e0)" by auto
      let ?m = "or_else (Some (message e0)) ''Deployment failed''"
      let ?w5 = "updateDeployment did
                  (\<lambda>r. r\<lparr> dep_status := Failed,
                          dep_errorMessage := set_if_defined (dr_error result) (dep_errorMessage r),
                          dep_completedAt := Some (clock w3) \<rparr>)
                  (updateClient cid (\<lambda>c. c\<lparr>cl_status := ClientFailed\<rparr>) w3)"
      let ?f1 = "b\<lparr> dep_status := Failed, dep_errorMessage := Some (message e0),
                     dep_completedAt := Some (clock w3) \<rparr>"
      let ?f2 = "b\<lparr> dep_status := Failed, dep_errorMessage := Some ?m,
                     dep_completedAt := Some (clock w3) \<rparr>"
      have r5: "rows_of did ?w5 = [?f1]"
        by (simp add: rows_of_updateDeployment r3 e0)
      have t5: "trace ?w5 = trace w @ ([LedgerWrite p, LedgerWrite b] @ evs3 @ [LedgerWrite ?f1])"
        by (simp add: trace_updateDeployment r3 t3 aw(1) e0)
      have o5: "filter (\<lambda>r. dep_id r \<noteq> did) (tbl_deployments ?w5) = tbl_deployments w"
        by (simp add: others_updateDeployment d3 aw(3))
      have c5: "clock ?w5 = clock w3" by simp
      note cf = catch_facts [where cid = cid and m = ?m, OF r5]
      have r: "clients_deploy env did cid w = (Inl (Error ?m), ?catch (Error ?m) ?w5)"
        by (simp add: unfold run(2) False e0)
      have "trace (snd (clients_deploy env did cid w))
              = trace w @ ([LedgerWrite p, LedgerWrite b] @ evs3 @ [LedgerWrite ?f1, LedgerWrite ?f2])"
        using cf(1) t5 c5 by (simp add: r)
      moreover have "row_history did ([LedgerWrite p, LedgerWrite b] @ evs3 @ [LedgerWrite ?f1, LedgerWrite ?f2])
            = [p, b, ?f1, ?f2]"
        using h3 by (simp add: p_def b_def pending_row_def)
      moreover have "filter (\<lambda>r. dep_id r \<noteq> did) (tbl_deployments (snd (clients_deploy env did cid w)))
         = tbl_deployments w"
        using cf(3) o5 by (simp add: r)
      moreover have "rows_of did (snd (clients_deploy env did cid w)) = [?f2]"
        using cf(2) c5 by (simp add: r)
      moreover have "fst (clients_deploy env did cid w) = Inl (Error ?m)" by (simp add: r)
      moreover have "\<forall>c \<in> set (clients_of cid (snd (clients_deploy env did cid w))). cl_status c = ClientFailed"
        using cf(4) by (simp add: r)
      ultimately show ?thesis by blast
    qed
  qed
qed

subsection \<open>Outcomes of clients.deploy and clients.delete\<close>

lemma clients_deploy_unfold:
  assumes client: "getClient cid w = Some client"
    and fresh: "did \<notin> dep_id ` set (tbl_deployments w)"
  shows "clients_deploy env did cid w =
     (case clients_deploy_try env did cid client
             ((emit (LedgerWrite (pending_row did cid client w)) w)
                \<lparr>tbl_deployments := tbl_deployments w @ [pending_row did cid client w]\<rparr>) of
        (Inr result, w') \<Rightarrow> (Inr result, w')
      | (Inl error, w') \<Rightarrow>
          (Inl error,
           updateDeployment did
             (\<lambda>r. r\<lparr> dep_status := Failed, dep_errorMessage := Some (message error),
                     dep_completedAt := Some (clock w') \<rparr>)
             (updateClient cid (\<lambda>c. c\<lparr>cl_status := ClientFailed\<rparr>) w')))"
  by (simp add: clients_deploy_def client createDeployment_fresh [OF fresh] Let_def
        split: prod.splits sum.splits)

lemma attempt_world_alt:
  "attempt_world did cid client w
     = updateDeployment did (\<lambda>r. r\<lparr>dep_status := Building\<rparr>)
         (updateClient cid (\<lambda>c. c\<lparr>cl_status := ClientDeploying\<rparr>)
            ((emit (LedgerWrite (pending_row did cid client w)) w)
               \<lparr>tbl_deployments := tbl_deployments w @ [pending_row did cid client w]\<rparr>))"
  by (simp add: attempt_world_def)


text \<open>A successful provisioning leaves \<open>clients.deploy\<close> with its result.\<close>

lemma clients_deploy_returns:
  assumes client: "getClient cid w = Some client"
    and fresh: "did \<notin> dep_id ` set (tbl_deployments w)"
    and token: "truthy (RAILWAY_API_TOKEN env)"
    and lendpro: "gc_lendpro client = Some lendpro"
    and decrypt: "decryptPassword (env_crypto env) (ENCRYPTION_KEY env)
                    (lp_password (lr_config lendpro)) = Inr password"
    and ok: "dr_success (fst (deployClient (new_ClientDeployer (env_platform env) None None)
                 (clientConfig_of client lendpro password) (attempt_world did cid client w)))"
  shows "fst (clients_deploy env did cid w)
          = Inr (fst (deployClient (new_ClientDeployer (env_platform env) None None)
                 (clientConfig_of client lendpro password) (attempt_world did cid client w)))"
proof -
  have rc: "createRailwayApiClient (env_platform env) (RAILWAY_API_TOKEN env) = Inr (env_platform env)"
    using token by (simp add: createRailwayApiClient_def)
  obtain result w3 where d: "deployClient (new_ClientDeployer (env_platform env) None None)
       (clientConfig_of client lendpro password) (attempt_world did cid client w) = (result, w3)"
    by (cases "deployClient (new_ClientDeployer (env_platform env) None None)
       (clientConfig_of client lendpro password) (attempt_world did cid client w)") auto
  from try_run [OF rc lendpro decrypt d [unfolded attempt_world_alt]] ok d
  show ?thesis
    by (simp add: clients_deploy_unfold [OF client fresh])
qed

lemma waitForDeployment_ok:
  "waitForDeployment railway_ok d 300000 w
     = (Inr \<lparr>st_status = ''SUCCESS'', st_url = None\<rparr>,
        (emit (GetDeploymentStatus d) w)\<lparr>clock := clock w\<rparr>)"
  by (simp add: waitForDeployment_def railway_ok_def
        loop_unfold_poll [where st = "\<lparr>st_status = ''SUCCESS'', st_url = None\<rparr>"])

lemma railway_ok_fields:
  "r_createProject railway_ok name = Inr \<lparr>prj_projectId = ''proj-1'', prj_projectName = name\<rparr>"
  "r_createMySQLService railway_ok p name = Inr \<lparr>svc_serviceId = ''svc-db'', svc_serviceName = name\<rparr>"
  "r_createService railway_ok p name repo branch = Inr \<lparr>svc_serviceId = ''svc-web'', svc_serviceName = name\<rparr>"
  "r_setEnvironmentVariables railway_ok p s vars = Inr ()"
  "r_triggerDeployment railway_ok p s = Inr \<lparr>dpl_deploymentId = ''dpl-1'', dpl_status = ''BUILDING''\<rparr>"
  "r_getServiceDomain railway_ok s = Inr (Some ''acme.up.railway.app'')"
  "r_addCustomDomain railway_ok s d = Inr ()"
  by (simp_all add: railway_ok_def)

lemma deployClient_ok:
  "fst (deployClient (new_ClientDeployer railway_ok None None) config w)
     = \<lparr> dr_success = True, dr_clientId = cfg_id config, dr_projectId = Some ''proj-1'',
         dr_projectUrl = Some ''https://railway.app/project/proj-1'',
         dr_serviceUrl = Some ''acme.up.railway.app'', dr_error = None \<rparr>"
  by (simp add: deployClient_def deployClient_try_def new_ClientDeployer_def Let_def
        waitForDeployment_ok railway_ok_fields)


lemma getClient_acme:
  "getClient ''acme'' world_acme
     = Some \<lparr> gc_client = acme_client, gc_lendpro = Some acme_lendpro, gc_branding = None,
              gc_features = None, gc_visualizer = None \<rparr>"
  by (simp add: getClient_def world_acme_def world0_def acme_client_def acme_lendpro_def)



lemma server_fields [simp]:
  "env_platform server_ok = railway_ok" "env_crypto server_ok = test_crypto"
  "ENCRYPTION_KEY server_ok = Some test_key" "RAILWAY_API_TOKEN server_ok = Some ''token''"
  "env_platform server_down = railway_down" "env_crypto server_down = test_crypto"
  "ENCRYPTION_KEY server_down = Some test_key" "RAILWAY_API_TOKEN server_down = Some ''token''"
  by (simp_all add: server_ok_def server_down_def)

lemma acme_password [simp]: "lp_password (lr_config acme_lendpro) = stored_password"
  by (simp add: acme_lendpro_def)

lemma fresh_acme: "''d1'' \<notin> dep_id ` set (tbl_deployments world_acme)"
  by (simp add: world_acme_def world0_def)


lemma run_ok_acme:
  "fst (clients_deploy server_ok ''d1'' ''acme'' world_acme)
     = Inr \<lparr> dr_success = True, dr_clientId = ''acme'', dr_projectId = Some ''proj-1'',
             dr_projectUrl = Some ''https://railway.app/project/proj-1'',
             dr_serviceUrl = Some ''acme.up.railway.app'', dr_error = None \<rparr>"
  using clients_deploy_returns [OF getClient_acme fresh_acme, of server_ok acme_lendpro "''p''"]
  by (simp add: decrypt_stored_password deployClient_ok clientConfig_of_def acme_client_def)



text \<open>
  Claim C6, amended. For an existing client and a fresh id, the values the new ledger
  row takes during \<open>clients.deploy\<close> are \<open>pending\<close>, \<open>building\<close>, and then \<open>success\<close> or
  \<open>failed\<close>: the row is never given the status \<open>deploying\<close>. At every value the row takes,
  \<open>completedAt\<close> is null if and only if the status is non-terminal.
\<close>

theorem ledger_status_sequence:
  assumes "getClient cid w = Some client" and "did \<notin> dep_id ` set (tbl_deployments w)"
  shows "remdups_adj (map dep_status
            (row_history did (new_events w (snd (clients_deploy env did cid w)))))
           \<in> {[Pending, Building, Success], [Pending, Building, Failed]}
       \<and> Deploying \<notin> dep_status ` set (row_history did (new_events w (snd (clients_deploy env did cid w))))
       \<and> (\<forall>r \<in> set (row_history did (new_events w (snd (clients_deploy env did cid w)))).
            (dep_completedAt r = None) = non_terminal (dep_status r))"
proof -
  from clients_deploy_outcome [OF assms, of env] obtain evs where
    t: "trace (snd (clients_deploy env did cid w)) = trace w @ evs"
    and c: "(\<exists>t. row_history did evs =
               [pending_row did cid client w, (pending_row did cid client w)\<lparr>dep_status := Building\<rparr>,
                (pending_row did cid client w)\<lparr>dep_status := Building\<rparr>
                   \<lparr>dep_status := Success, dep_completedAt := Some t\<rparr>])
          \<or> (\<exists>m t. row_history did evs =
               [pending_row did cid client w, (pending_row did cid client w)\<lparr>dep_status := Building\<rparr>,
                (pending_row did cid client w)\<lparr>dep_status := Building\<rparr>
                   \<lparr>dep_status := Failed, dep_errorMessage := Some m, dep_completedAt := Some t\<rparr>])
          \<or> (\<exists>m0 t0 m t. row_history did evs =
               [pending_row did cid client w, (pending_row did cid client w)\<lparr>dep_status := Building\<rparr>,
                (pending_row did cid client w)\<lparr>dep_status := Building\<rparr>
                   \<lparr>dep_status := Failed, dep_errorMessage := Some m0, dep_completedAt := Some t0\<rparr>,
                (pending_row did cid client w)\<lparr>dep_status := Building\<rparr>
                   \<lparr>dep_status := Failed, dep_errorMessage := Some m, dep_completedAt := Some t\<rparr>])"
    by blast
  have ne: "new_events w (snd (clients_deploy env did cid w)) = evs"
    by (rule new_events_append [OF t])
  from c show ?thesis unfolding ne
    by (auto simp: pending_row_def non_terminal_def)
qed

theorem ledger_status_sequence_witness:
  "remdups_adj (map dep_status
      (row_history ''d1'' (new_events world_acme (snd (clients_deploy server_down ''d1'' ''acme'' world_acme)))))
     \<in> {[Pending, Building, Success], [Pending, Building, Failed]}
   \<and> Deploying \<notin> dep_status ` set (row_history ''d1''
          (new_events world_acme (snd (clients_deploy server_down ''d1'' ''acme'' world_acme))))
   \<and> list_all (\<lambda>r. (dep_completedAt r = None) = non_terminal (dep_status r))
        (row_history ''d1''
          (new_events world_acme (snd (clients_deploy server_down ''d1'' ''acme'' world_acme))))"
  using ledger_status_sequence [OF getClient_acme fresh_acme, of server_down]
  by (simp add: list_all_iff)

text \<open>
  The claim as stated fails on a successful deployment: the row goes from \<open>building\<close>
  straight to \<open>success\<close>, which is no prefix of
  \<open>pending, building, deploying, success\<close> or \<open>pending, building, deploying, failed\<close>.
\<close>

theorem ledger_status_sequence_counterexample:
  "map dep_status
      (row_history ''d1'' (new_events world_acme (snd (clients_deploy server_ok ''d1'' ''acme'' world_acme))))
     = [Pending, Building, Success]
   \<and> \<not> prefix [Pending, Building, Success] [Pending, Building, Deploying, Success]
   \<and> \<not> prefix [Pending, Building, Success] [Pending, Building, Deploying, Failed]"
proof -
  from clients_deploy_outcome [OF getClient_acme fresh_acme, of server_ok] obtain evs where
    t: "trace (snd (clients_deploy server_ok ''d1'' ''acme'' world_acme)) = trace world_acme @ evs"
    and c: "(\<exists>t. map dep_status (row_history ''d1'' evs) = [Pending, Building, Success])
          \<or> (\<exists>error. fst (clients_deploy server_ok ''d1'' ''acme'' world_acme) = Inl error)"
    by (auto simp: pending_row_def)
  have ne: "new_events world_acme (snd (clients_deploy server_ok ''d1'' ''acme'' world_acme)) = evs"
    by (rule new_events_append [OF t])
  from c run_ok_acme show ?thesis unfolding ne by auto
qed





lemma created_projects_append [simp]:
  "created_projects (xs @ ys) = created_projects xs @ created_projects ys"
  by (simp add: created_projects_def)

lemma created_projects_writes [simp]: "created_projects (map (\<lambda>r. LedgerWrite (f r)) rs) = []"
  by (induction rs) (simp_all add: created_projects_def)

lemma created_projects_simps [simp]:
  "created_projects [] = []"
  "created_projects (CreateProject n # evs) = n # created_projects evs"
  "created_projects (LedgerWrite r # evs) = created_projects evs"
  by (simp_all add: created_projects_def)








text \<open>
  Claim C9. When the client has a Railway project and \<open>deleteProject\<close> fails with an error
  \<open>e\<close>, \<open>clients.delete\<close> still returns \<open>{ success: true }\<close>; the client's row and its rows
  in every table that references it are gone, the rows of other clients are kept, and
  \<open>e\<close> is written to \<open>console.error\<close>.
\<close>

theorem clients_delete_remote_failure:
  assumes "getClient cid w = Some client"
    and "cl_railwayProjectId (gc_client client) = Some projectId" and "projectId \<noteq> []"
    and "truthy (RAILWAY_API_TOKEN env)"
    and "r_deleteProject (env_platform env) projectId = Inl e"
  shows "fst (clients_delete env cid w) = Inr True
       \<and> tbl_clients (snd (clients_delete env cid w)) = filter (\<lambda>c. cl_id c \<noteq> cid) (tbl_clients w)
       \<and> tbl_lendpro (snd (clients_delete env cid w)) = filter (\<lambda>r. lr_clientId r \<noteq> cid) (tbl_lendpro w)
       \<and> tbl_branding (snd (clients_delete env cid w)) = filter (\<lambda>r. bb_clientId r \<noteq> cid) (tbl_branding w)
       \<and> tbl_features (snd (clients_delete env cid w)) = filter (\<lambda>r. fr_clientId r \<noteq> cid) (tbl_features w)
       \<and> tbl_visualizer (snd (clients_delete env cid w)) = filter (\<lambda>r. vr_clientId r \<noteq> cid) (tbl_visualizer w)
       \<and> tbl_deployments (snd (clients_delete env cid w)) = filter (\<lambda>r. dep_clientId r \<noteq> cid) (tbl_deployments w)
       \<and> tbl_analytics (snd (clients_delete env cid w)) = filter (\<lambda>r. an_clientId r \<noteq> cid) (tbl_analytics w)
       \<and> trace (snd (clients_delete env cid w)) = trace w @ [DeleteProject projectId]
       \<and> console (snd (clients_delete env cid w))
           = console w @ [ConsoleError ''Failed to delete Railway project:'' e]"
  using assms
  by (simp add: clients_delete_def createRailwayApiClient_def deleteClient_def new_ClientDeployer_def
        dbDeleteClient_def logAdminAction_def console_error_def emit_def Let_def)

lemma getClient_deployed:
  "getClient ''acme'' world_deployed
     = Some \<lparr> gc_client = acme_client\<lparr>cl_railwayProjectId := Some ''proj-1'', cl_status := ClientActive\<rparr>,
              gc_lendpro = Some acme_lendpro, gc_branding = None,
              gc_features = Some \<lparr> fr_clientId = ''acme'',
                                fr_flags = \<lparr> ff_preApproval = True, ff_cartFinancing = True,
                                             ff_orderTracking = True, ff_customerAccounts = True,
                                             ff_productComparison = True, ff_cartOnly = False \<rparr> \<rparr>,
              gc_visualizer = None \<rparr>"
  by (simp add: getClient_def world_deployed_def world0_def acme_client_def acme_lendpro_def)

theorem clients_delete_remote_failure_witness:
  "fst (clients_delete server_down ''acme'' world_deployed) = Inr True
   \<and> tbl_clients (snd (clients_delete server_down ''acme'' world_deployed)) = []
   \<and> tbl_lendpro (snd (clients_delete server_down ''acme'' world_deployed)) = []
   \<and> tbl_features (snd (clients_delete server_down ''acme'' world_deployed)) = []
   \<and> tbl_deployments (snd (clients_delete server_down ''acme'' world_deployed)) = []
   \<and> tbl_analytics (snd (clients_delete server_down ''acme'' world_deployed)) = []
   \<and> trace (snd (clients_delete server_down ''acme'' world_deployed)) = [DeleteProject ''proj-1'']
   \<and> console (snd (clients_delete server_down ''acme'' world_deployed))
       = [ConsoleError ''Failed to delete Railway project:'' (Error ''Railway API Error'')]"
  using clients_delete_remote_failure [OF getClient_deployed, of "''proj-1''" server_down
      "Error ''Railway API Error''"]
  by (simp add: railway_down_def world_deployed_def world0_def acme_client_def acme_lendpro_def
        inflight_row_def)

end
